theory Spec2Isabelle
  imports Complex_Main
begin

section \<open>FairCoin: the mint-eligibility test, the stake wallet and the mining engine\<close>

text \<open>
  A shallow embedding of the miner (the file with \<open>isEligibileToMint\<close>,
  \<open>startNewSearch\<close>, \<open>isValidBlock\<close> and \<open>receiveBlock\<close>) and of the wallet
  (\<open>addUTXO\<close>, \<open>spendUTXOs\<close>, \<open>spendUTXOsFully\<close>, \<open>getCoinAgeOfWalletOnChain\<close>).

  JavaScript strings are modelled as \<open>string\<close>; \<open>charCodeAt\<close> is \<open>of_char\<close>. Coin
  amounts, chain lengths and time stamps are integers (of magnitude below \<open>2^53\<close>, which
  a JavaScript number holds exactly). An exception is a value \<open>Inl e\<close>; a function that
  mutates an object returns the object as it is after the call, also when the call throws.
\<close>

subsection \<open>Errors\<close>

datatype error =
    MismatchingLength     \<comment> \<open>"Mismatching string length in mint elegibility process"\<close>
  | InsufficientFunds     \<comment> \<open>"Insufficient funds. Requested ..."\<close>
  | MissingKeyError       \<comment> \<open>"Wallet does not have key for ..."\<close>
  | NoSpendableCoinAge    \<comment> \<open>"Miner not able to spend any coinage.. can't mine"\<close>
  | IneligibleMinter      \<comment> \<open>"invalid proof. Miner is not allowed to mint"\<close>
  | TypeError             \<comment> \<open>a property read on \<open>undefined\<close>\<close>

subsection \<open>The bit-matching helpers of the miner\<close>

text \<open>\<open>n.toString(2)\<close> for a char code: binary digits, most significant first, no padding.\<close>

fun toString2 :: "nat \<Rightarrow> string" where
  "toString2 n =
     (if n < 2 then [if n = 0 then CHR ''0'' else CHR ''1'']
      else toString2 (n div 2) @ [if n mod 2 = 0 then CHR ''0'' else CHR ''1''])"

declare toString2.simps [simp del]

text \<open>\<open>string.split('').map(c => c.charCodeAt(0).toString(2)).join('').slice(0, 16)\<close>\<close>

definition text2Binary :: "string \<Rightarrow> string" where
  "text2Binary s = take 16 (concat (map (\<lambda>c. toString2 (of_char c)) s))"

text \<open>The \<open>for\<close> loop of \<open>countMatchingBits\<close>, with its counter \<open>i\<close> and its \<open>total\<close> (here \<open>totl\<close>).\<close>

function countLoop :: "string \<Rightarrow> string \<Rightarrow> nat \<Rightarrow> nat \<Rightarrow> nat" where
  "countLoop string1 string2 i totl =
     (if i < length string1 then
        (if string1 ! i = string2 ! i then countLoop string1 string2 (i + 1) (totl + 1)
         else totl)
      else totl)"
  by pat_completeness auto
termination
  by (relation "measure (\<lambda>(string1, string2, i, totl). length string1 - i)") auto

declare countLoop.simps [simp del]

definition countMatchingBits :: "string \<Rightarrow> string \<Rightarrow> error + nat" where
  "countMatchingBits string1 string2 =
     (if length string1 \<noteq> length string2 then Inl MismatchingLength
      else Inr (countLoop string1 string2 0 0))"

subsection \<open>Double-precision arithmetic\<close>

text \<open>
  The coin age is computed in JavaScript numbers, that is IEEE 754 doubles: the result of
  \<open>+\<close>, \<open>*\<close> and \<open>/\<close> is the exact result rounded to the nearest number with a 53-bit
  significand, ties to the even significand. A double is modelled as the rational it
  denotes. On the operands that occur here (integers below \<open>2^53\<close> divided by 1000,
  multiplied by an integer, and summed) no operation overflows or leaves the normal range,
  so rounding is all there is to it.

  \<open>ilog2 x\<close> is the exponent \<open>e\<close> with \<open>2^e \<le> x < 2^(e+1)\<close>, for \<open>x > 0\<close>.
\<close>

function log2up :: "rat \<Rightarrow> int" where
  "log2up x = (if x < 2 then 0 else log2up (x / 2) + 1)"
  by pat_completeness auto
termination
proof (relation "measure (\<lambda>x. nat \<lfloor>x\<rfloor>)")
  show "wf (measure (\<lambda>x::rat. nat \<lfloor>x\<rfloor>))" by simp
next
  fix x :: rat
  assume "\<not> x < 2"
  then have p: "1 \<le> \<lfloor>x\<rfloor>" by (simp add: le_floor_iff)
  have "x < of_int \<lfloor>x\<rfloor> + 1" by linarith
  moreover from p have "(1::rat) \<le> of_int \<lfloor>x\<rfloor>" by linarith
  ultimately have "x / 2 < of_int \<lfloor>x\<rfloor>" by linarith
  then have "\<lfloor>x / 2\<rfloor> < \<lfloor>x\<rfloor>" by (simp add: floor_less_iff)
  with p show "(x / 2, x) \<in> measure (\<lambda>x. nat \<lfloor>x\<rfloor>)" by simp
qed

function log2down :: "rat \<Rightarrow> int" where
  "log2down x = (if x \<le> 0 \<or> 1 \<le> x then 0 else log2down (2 * x) - 1)"
  by pat_completeness auto
termination
proof (relation "measure (\<lambda>x. nat \<lfloor>1 / x\<rfloor>)")
  show "wf (measure (\<lambda>x::rat. nat \<lfloor>1 / x\<rfloor>))" by simp
next
  fix x :: rat
  assume "\<not> (x \<le> 0 \<or> 1 \<le> x)"
  then have "1 < 1 / x" by simp
  then have p: "1 \<le> \<lfloor>1 / x\<rfloor>" by (simp add: le_floor_iff)
  define y where "y = 1 / x"
  have "y < of_int \<lfloor>y\<rfloor> + 1" by linarith
  moreover from p have "(1::rat) \<le> of_int \<lfloor>y\<rfloor>" by (simp add: y_def)
  ultimately have "y / 2 < of_int \<lfloor>y\<rfloor>" by linarith
  then have "\<lfloor>y / 2\<rfloor> < \<lfloor>y\<rfloor>" by (simp only: floor_less_iff)
  moreover have "1 / (2 * x) = y / 2" by (simp add: y_def)
  ultimately have "\<lfloor>1 / (2 * x)\<rfloor> < \<lfloor>1 / x\<rfloor>" by (simp only: y_def)
  with p show "(2 * x, x) \<in> measure (\<lambda>x. nat \<lfloor>1 / x\<rfloor>)"
    by (simp only: in_measure)
qed

declare log2up.simps [simp del] log2down.simps [simp del]

definition ilog2 :: "rat \<Rightarrow> int" where
  "ilog2 x = (if 1 \<le> x then log2up x else log2down x)"

definition roundHalfEven :: "rat \<Rightarrow> int" where
  "roundHalfEven y =
     (let f = \<lfloor>y\<rfloor>; d = y - of_int f
      in if d < 1 / 2 then f else if 1 / 2 < d then f + 1
         else if even f then f else f + 1)"

text \<open>The double nearest to a rational: 53 significant bits, ties to even.\<close>

definition toDouble :: "rat \<Rightarrow> rat" where
  "toDouble x =
     (if x = 0 then 0
      else (let ulp = 2 powi (ilog2 \<bar>x\<bar> - 52)
            in of_int (roundHalfEven (x / ulp)) * ulp))"

definition fadd :: "rat \<Rightarrow> rat \<Rightarrow> rat" where
  "fadd a b = toDouble (a + b)"

definition fmul :: "rat \<Rightarrow> rat \<Rightarrow> rat" where
  "fmul a b = toDouble (a * b)"

definition fdiv :: "rat \<Rightarrow> rat \<Rightarrow> rat" where
  "fdiv a b = toDouble (a / b)"

subsection \<open>Data\<close>

text \<open>
  A UTXO is \<open>{address, amount, chainNum}\<close>. A coin of the wallet is
  \<open>{output, txID, outputIndex}\<close>, to which spending adds \<open>pubKey\<close> and \<open>sig\<close>
  (\<open>output\<close> is written \<open>coin_output\<close>).
\<close>

record utxo =
  address :: string
  amount :: int
  chainNum :: int

record keypair =
  kp_public :: string             \<comment> \<open>\<open>kp.public\<close>\<close>
  kp_private :: "string option"   \<comment> \<open>\<open>kp.private\<close>, \<open>null\<close> after \<open>removePrivateKeys\<close>\<close>

record coin =
  coin_output :: utxo
  txID :: string
  outputIndex :: nat
  pubKey :: "string option"
  sig :: "string option"

text \<open>
  \<open>coins\<close> is the queue, newest first. \<open>this.addresses\<close> is a plain object: \<open>addresses\<close>
  holds its own properties, the key pairs stored by \<open>makeAddress\<close>, and
  \<open>addresses_proto\<close> its prototype, \<open>None\<close> for \<open>Object.prototype\<close> and \<open>Some kp\<close> once
  an assignment to the property \<open>__proto__\<close> has made the key pair \<open>kp\<close> the prototype.
\<close>

record wallet =
  coins :: "coin list"
  addresses :: "string \<rightharpoonup> keypair"
  addresses_proto :: "keypair option"
  eligibility_address :: "string option"   \<comment> \<open>\<open>undefined\<close> until \<open>saveEligibilityProof\<close>\<close>

text \<open>
  What \<open>this.addresses[a]\<close> can yield: \<open>undefined\<close>, \<open>null\<close>, a string, a key pair, or
  another object (the functions that every object inherits, and \<open>Object.prototype\<close>
  itself), which has neither a \<open>public\<close> nor a \<open>private\<close> property.
\<close>

datatype jsval = JSUndefined | JSNull | JSString string | JSKeyPair keypair | JSObject

record transaction =
  tx_id :: string
  outputs :: "utxo list"

text \<open>
  The fields of a block that the miner and the wallet read or write. \<open>utxos\<close> maps a
  transaction id to its outputs (an association list with distinct keys); \<open>proof\<close> is
  written \<open>proof_ctr\<close>.
\<close>

record block =
  prevBlockHash :: string
  chainLength :: int
  utxos :: "(string \<times> utxo list) list"
  proof_ctr :: nat
  target :: int
  timestamp :: int

text \<open>What \<open>this.log\<close> prints, one constructor per message of the miner.\<close>

datatype logmsg =
    LogBalance int            \<comment> \<open>"balance: " + balanceOnChain\<close>
  | LogTargetDifficulty int   \<comment> \<open>"Will use target difficulty of ..."\<close>
  | LogEligible               \<comment> \<open>"Eligible to mint."\<close>
  | LogUnableToMint           \<comment> \<open>"-Unable to mint this block. Will try again in 30 seconds."\<close>
  | LogNotAllowed string      \<comment> \<open>"Miner ... is not allowed to mint at this time!"\<close>
  | LogRejecting              \<comment> \<open>"Rejecting invalid block!"\<close>
  | LogCuttingOver            \<comment> \<open>"Cutting over to new chain."\<close>

text \<open>
  The miner object. \<open>ident\<close> stands for the identity of the object (what \<open>!==\<close>
  compares); \<open>mintingTimeout\<close> is \<open>Some r\<close> while a retry timer is pending that will
  emit \<open>INIT_MINTING\<close> with \<open>reuseRewardAddress = r\<close>; \<open>console\<close> collects the log.
\<close>

record miner =
  ident :: nat
  name :: string
  wallet :: wallet
  mint_elegibility_diff_dyn :: int
  previousBlocks :: "string \<rightharpoonup> block"
  currentBlock :: block
  rewardAddress :: "string option"
  shouldStartNewBlock :: bool
  shouldMine :: bool
  mintingTimeout :: "bool option"
  console :: "logmsg list"

text \<open>
  The collaborators whose code is not part of the modelled files (\<open>utils.js\<close>,
  \<open>block.js\<close>) are taken as parameters; every theorem below holds for all of them.
  \<open>newBlock r p\<close> is \<open>new Block(r, p)\<close>; \<open>spendCoinAge\<close> returns the transaction and
  the block as the call leaves it.
\<close>

record env =
  sign :: "string option \<Rightarrow> utxo \<Rightarrow> string"
  calcAddress :: "string \<Rightarrow> string"
  hash :: "string \<Rightarrow> string"
  getAllAgedUTXOsBelongingTo :: "block \<Rightarrow> wallet \<Rightarrow> utxo list"
  getAllUTXOsBelongingTo :: "block \<Rightarrow> wallet \<Rightarrow> utxo list"
  newBlock :: "string option \<Rightarrow> block \<Rightarrow> block"
  determineTargetBasedOnCoinAge :: "rat \<Rightarrow> int"
  spendCoinAge :: "block \<Rightarrow> string \<Rightarrow> int \<Rightarrow> coin list \<Rightarrow> transaction \<times> block"
  deserialize :: "string \<Rightarrow> block"
  hashVal :: "block \<Rightarrow> string"
  verifyProof :: "block \<Rightarrow> bool"

record spent_inputs =
  inputs :: "coin list"

record spent = spent_inputs +
  changeAmt :: int

record spentFully = spent_inputs +
  totalSpent :: int

subsection \<open>The wallet\<close>

text \<open>\<open>get balance\<close>: \<open>coins.reduce((acc, {output}) => acc + output.amount, 0)\<close>.\<close>

definition balance :: "wallet \<Rightarrow> int" where
  "balance w = foldl (\<lambda>acc c. acc + amount (coin_output c)) 0 (coins w)"

text \<open>The names of the properties of \<open>Object.prototype\<close>.\<close>

definition objectPrototypeNames :: "string list" where
  "objectPrototypeNames =
     [''constructor'', ''__defineGetter__'', ''__defineSetter__'', ''hasOwnProperty'',
      ''__lookupGetter__'', ''__lookupSetter__'', ''isPrototypeOf'',
      ''propertyIsEnumerable'', ''toString'', ''valueOf'', ''__proto__'',
      ''toLocaleString'']"

text \<open>
  \<open>this.addresses[a]\<close>: an own property first, then the prototype chain. With a key pair
  as prototype its \<open>public\<close> and \<open>private\<close> are inherited, and \<open>__proto__\<close> reads as
  the prototype.
\<close>

definition addressesLookup :: "wallet \<Rightarrow> string \<Rightarrow> jsval" where
  "addressesLookup w a =
     (case addresses w a of
        Some kp \<Rightarrow> JSKeyPair kp
      | None \<Rightarrow>
          (case addresses_proto w of
             None \<Rightarrow> (if a \<in> set objectPrototypeNames then JSObject else JSUndefined)
           | Some p \<Rightarrow>
               (if a = ''__proto__'' then JSKeyPair p
                else if a = ''public'' then JSString (kp_public p)
                else if a = ''private'' then
                  (case kp_private p of None \<Rightarrow> JSNull | Some s \<Rightarrow> JSString s)
                else if a \<in> set objectPrototypeNames then JSObject
                else JSUndefined)))"

text \<open>\<open>!!v\<close>\<close>

definition truthy :: "jsval \<Rightarrow> bool" where
  "truthy v =
     (case v of JSUndefined \<Rightarrow> False | JSNull \<Rightarrow> False | JSString s \<Rightarrow> s \<noteq> []
      | JSKeyPair kp \<Rightarrow> True | JSObject \<Rightarrow> True)"

text \<open>
  \<open>v.public\<close> and \<open>v.private\<close>: a TypeError (\<open>None\<close>) on \<open>undefined\<close> and \<open>null\<close>, the
  fields of a key pair, and \<open>undefined\<close> on any other value. In the result \<open>None\<close> stands
  for \<open>undefined\<close> as well as for \<open>null\<close>.
\<close>

definition readKeys :: "jsval \<Rightarrow> (string option \<times> string option) option" where
  "readKeys v =
     (case v of JSUndefined \<Rightarrow> None | JSNull \<Rightarrow> None
      | JSString s \<Rightarrow> Some (None, None)
      | JSKeyPair kp \<Rightarrow> Some (Some (kp_public kp), kp_private kp)
      | JSObject \<Rightarrow> Some (None, None))"

definition hasKey :: "wallet \<Rightarrow> string \<Rightarrow> bool" where
  "hasKey w a = truthy (addressesLookup w a)"

definition balanceOnChain :: "wallet \<Rightarrow> miner \<Rightarrow> int" where
  "balanceOnChain w m =
     (let block = currentBlock m;
          chainLength' = chainLength block
      in foldl (\<lambda>totl (txID', txUTXOs).
                  foldl (\<lambda>totl u.
                           if hasKey w (address u) \<and> chainNum u < chainLength'
                           then totl + amount u else totl) totl txUTXOs)
               0 (utxos block))"

definition addUTXO :: "wallet \<Rightarrow> utxo \<Rightarrow> string \<Rightarrow> nat \<Rightarrow> (error + unit) \<times> wallet" where
  "addUTXO w u t k =
     (if addressesLookup w (address u) = JSUndefined then (Inl MissingKeyError, w)
      else (Inr (),
            w\<lparr>coins := \<lparr>coin_output = u, txID = t, outputIndex = k,
                         pubKey = None, sig = None\<rparr> # coins w\<rparr>))"

text \<open>
  The loop of \<open>spendUTXOs\<close>. The coins are objects shared by the queue and the
  returned array, so the loop returns the queue as the assignments to \<open>c.pubKey\<close> and
  \<open>c.sig\<close> leave it. \<open>look\<close> is \<open>this.addresses[...]\<close>.
\<close>

function spendLoop ::
  "env \<Rightarrow> (string \<Rightarrow> jsval) \<Rightarrow> coin list \<Rightarrow> nat \<Rightarrow> coin list \<Rightarrow> int
     \<Rightarrow> (error + coin list \<times> int) \<times> coin list" where
  "spendLoop e look cs i needed amt =
     (if i < length cs then
        (if amt > 0 then
           (let c = cs ! i in
            case readKeys (look (address (coin_output c))) of
              None \<Rightarrow> (Inl TypeError, cs)
            | Some (pub, priv) \<Rightarrow>
                (let c' = c\<lparr>pubKey := pub,
                            sig := Some (sign e priv (coin_output c))\<rparr>
                 in spendLoop e look (cs[i := c']) (i + 1) (needed @ [c'])
                      (amt - amount (coin_output c'))))
         else (Inr (needed, amt), cs))
      else (Inr (needed, amt), cs))"
  by pat_completeness auto
termination
  by (relation "measure (\<lambda>(e, look, cs, i, needed, amt). length cs - i)") auto

declare spendLoop.simps [simp del]

definition spendUTXOs :: "env \<Rightarrow> wallet \<Rightarrow> int \<Rightarrow> (error + spent) \<times> wallet" where
  "spendUTXOs e w amt =
     (if amt > balance w then (Inl InsufficientFunds, w)
      else case spendLoop e (addressesLookup w) (coins w) 0 [] amt of
             (Inl err, cs) \<Rightarrow> (Inl err, w\<lparr>coins := cs\<rparr>)
           | (Inr (needed, amt'), cs) \<Rightarrow>
               (Inr \<lparr>inputs = needed, changeAmt = - amt'\<rparr>, w\<lparr>coins := cs\<rparr>))"

text \<open>The loop of \<open>spendUTXOsFully\<close>: as above, but a coin whose address is not among
  \<open>validAddresses\<close> is passed over.\<close>

function spendFullyLoop ::
  "env \<Rightarrow> (string \<Rightarrow> jsval) \<Rightarrow> string list \<Rightarrow> coin list \<Rightarrow> nat \<Rightarrow> coin list \<Rightarrow> int
     \<Rightarrow> (error + coin list \<times> int) \<times> coin list" where
  "spendFullyLoop e look validAddresses cs i needed amt =
     (if i < length cs then
        (if amt > 0 then
           (let c = cs ! i in
            if address (coin_output c) \<in> set validAddresses then
              (case readKeys (look (address (coin_output c))) of
                 None \<Rightarrow> (Inl TypeError, cs)
               | Some (pub, priv) \<Rightarrow>
                   (let c' = c\<lparr>pubKey := pub,
                               sig := Some (sign e priv (coin_output c))\<rparr>
                    in spendFullyLoop e look validAddresses (cs[i := c']) (i + 1)
                         (needed @ [c']) (amt - amount (coin_output c'))))
            else spendFullyLoop e look validAddresses cs (i + 1) needed amt)
         else (Inr (needed, amt), cs))
      else (Inr (needed, amt), cs))"
  by pat_completeness auto
termination
  by (relation "measure (\<lambda>(e, look, validAddresses, cs, i, needed, amt). length cs - i)")
     auto

declare spendFullyLoop.simps [simp del]

definition spendUTXOsFully ::
  "env \<Rightarrow> wallet \<Rightarrow> int \<Rightarrow> miner \<Rightarrow> (error + spentFully) \<times> wallet" where
  "spendUTXOsFully e w amt m =
     (let expected = amt in
      if amt > balance w then (Inl InsufficientFunds, w)
      else
        (let block = currentBlock m;
             validUTXOs = getAllAgedUTXOsBelongingTo e block w;
             validAddresses = map address validUTXOs
         in case spendFullyLoop e (addressesLookup w) validAddresses (coins w) 0 [] amt of
              (Inl err, cs) \<Rightarrow> (Inl err, w\<lparr>coins := cs\<rparr>)
            | (Inr (needed, amt'), cs) \<Rightarrow>
                (Inr \<lparr>inputs = needed, totalSpent = expected - amt'\<rparr>, w\<lparr>coins := cs\<rparr>)))"

text \<open>
  \<open>makeAddress\<close>; the fresh key pair \<open>kp\<close> is what \<open>keypair()\<close> returns. The assignment
  \<open>this.addresses[addr] = kp\<close> stores an own property, except that for \<open>__proto__\<close> it
  replaces the prototype.
\<close>

definition makeAddress :: "env \<Rightarrow> wallet \<Rightarrow> keypair \<Rightarrow> string \<times> wallet" where
  "makeAddress e w kp =
     (let addr = calcAddress e (kp_public kp)
      in (addr, if addr = ''__proto__'' then w\<lparr>addresses_proto := Some kp\<rparr>
                else w\<lparr>addresses := (addresses w)(addr \<mapsto> kp)\<rparr>))"

definition getEligibilityAddress :: "wallet \<Rightarrow> string option" where
  "getEligibilityAddress w = eligibility_address w"

definition saveEligibilityProof :: "env \<Rightarrow> wallet \<Rightarrow> block \<Rightarrow> wallet" where
  "saveEligibilityProof e w block =
     (let utxos' = getAllUTXOsBelongingTo e block w;
          total_add = foldl (\<lambda>acc u. acc @ address u) [] utxos';
          total_add = (if total_add = [] then ''12345'' else total_add)
      in w\<lparr>eligibility_address := Some (hash e total_add)\<rparr>)"



definition removePrivateKeys :: "wallet \<Rightarrow> wallet" where
  "removePrivateKeys w =
     w\<lparr>addresses := (\<lambda>key. map_option (\<lambda>kp. kp\<lparr>kp_private := None\<rparr>) (addresses w key))\<rparr>"

definition newWallet :: wallet where
  "newWallet =
     \<lparr>coins = [], addresses = Map.empty, addresses_proto = None,
      eligibility_address = None\<rparr>"

text \<open>
  The second copy of the wallet, \<open>source/wallet.js\<close>, has the same \<open>addUTXO\<close>,
  \<open>spendUTXOs\<close>, \<open>spendUTXOsFully\<close>, \<open>makeAddress\<close> and \<open>balanceOnChain\<close>. It differs in
  three functions, modelled here with the suffix \<open>_sw\<close>: coin age is counted from
  \<open>chainLength - chainNum - 1\<close> with neither \<open>max\<close> nor clamp, \<open>getCoinAgeOfWalletOnChain\<close>
  takes the miner rather than the block, and the eligibility address is stored unhashed.
  The miner calls \<open>getCoinAgeOfWalletOnChain(this)\<close>, which is this copy's signature.
\<close>

definition coinAgeOf_sw :: "utxo \<Rightarrow> block \<Rightarrow> rat" where
  "coinAgeOf_sw u block =
     fmul (fdiv (of_int (amount u)) 1000) (of_int (chainLength block - chainNum u - 1))"

definition getCoinAgeOfWalletOnChain_sw :: "env \<Rightarrow> wallet \<Rightarrow> miner \<Rightarrow> rat" where
  "getCoinAgeOfWalletOnChain_sw e w m =
     (let block = currentBlock m;
          utxos' = getAllAgedUTXOsBelongingTo e block w
      in foldl (\<lambda>totl u. fadd totl (coinAgeOf_sw u block)) 0 utxos')"

definition saveEligibilityProof_sw :: "env \<Rightarrow> wallet \<Rightarrow> block \<Rightarrow> wallet" where
  "saveEligibilityProof_sw e w block =
     (let utxos' = getAllUTXOsBelongingTo e block w;
          total_add = foldl (\<lambda>acc u. acc @ address u) [] utxos';
          total_add = (if total_add = [] then ''12345'' else total_add)
      in w\<lparr>eligibility_address := Some total_add\<rparr>)"

subsection \<open>The miner\<close>

definition MINT_ELEGIBILITY_DIFFICULTY :: int where
  "MINT_ELEGIBILITY_DIFFICULTY = 3"

definition TIME_UNTIL_ELIGIBILITY_DECREASE :: int where
  "TIME_UNTIL_ELIGIBILITY_DECREASE = 30000"

definition log_m :: "miner \<Rightarrow> logmsg \<Rightarrow> miner" where
  "log_m m msg = m\<lparr>console := console m @ [msg]\<rparr>"

text \<open>
  \<open>isEligibileToMint(miner, b, target)\<close>. The eligibility address is \<open>undefined\<close>
  before the first \<open>saveEligibilityProof\<close>, and \<open>undefined.split\<close> is a TypeError.
\<close>

definition isEligibileToMint :: "miner \<Rightarrow> block \<Rightarrow> int \<Rightarrow> error + bool" where
  "isEligibileToMint m b target' =
     (let cbh = text2Binary (prevBlockHash b) in
      case getEligibilityAddress (wallet m) of
        None \<Rightarrow> Inl TypeError
      | Some addr \<Rightarrow>
          (let pkh = text2Binary addr in
           case countMatchingBits cbh pkh of
             Inl err \<Rightarrow> Inl err
           | Inr n \<Rightarrow> Inr (int n \<ge> target')))"

text \<open>
  The body of \<open>if(this.shouldStartNewBlock)\<close> in \<open>startNewSearch\<close>. \<open>kp1\<close> and \<open>kp2\<close>
  are the key pairs that the two calls of \<open>makeAddress\<close> generate. The miner passes
  itself to the wallet, which reads \<open>miner.currentBlock\<close>.
\<close>

definition buildCandidate ::
  "env \<Rightarrow> keypair \<Rightarrow> keypair \<Rightarrow> bool \<Rightarrow> miner \<Rightarrow> (error + unit) \<times> miner" where
  "buildCandidate e kp1 kp2 reuseRewardAddress m =
     (let m = m\<lparr>mint_elegibility_diff_dyn := MINT_ELEGIBILITY_DIFFICULTY,
                mintingTimeout := None\<rparr>;
          m = (if \<not> reuseRewardAddress then
                 (case makeAddress e (wallet m) kp1 of
                    (addr, w') \<Rightarrow> m\<lparr>rewardAddress := Some addr, wallet := w'\<rparr>)
               else m);
          b = newBlock e (rewardAddress m) (currentBlock m);
          m = m\<lparr>previousBlocks := (previousBlocks m)(prevBlockHash b \<mapsto> currentBlock m)\<rparr>;
          m = m\<lparr>currentBlock := b\<rparr>;
          m = m\<lparr>currentBlock := (currentBlock m)\<lparr>proof_ctr := 0\<rparr>\<rparr>;
          m = m\<lparr>shouldStartNewBlock := False\<rparr>
      in case makeAddress e (wallet m) kp2 of
        (selfAddr, w') \<Rightarrow>
          (let m = m\<lparr>wallet := w'\<rparr>;
               m = log_m m (LogBalance (balanceOnChain (wallet m) m));
               m = m\<lparr>currentBlock := (currentBlock m)
                        \<lparr>target := determineTargetBasedOnCoinAge e
                                     (getCoinAgeOfWalletOnChain_sw e (wallet m) m)\<rparr>\<rparr>;
               m = log_m m (LogTargetDifficulty
                            (20 - min 4 \<lfloor>getCoinAgeOfWalletOnChain_sw e (wallet m) m\<rfloor>))
           in case spendUTXOsFully e (wallet m) (balanceOnChain (wallet m) m) m of
                (Inl err, w') \<Rightarrow> (Inl err, m\<lparr>wallet := w'\<rparr>)
              | (Inr r, w') \<Rightarrow>
                  (let m = m\<lparr>wallet := w'\<rparr> in
                   if totalSpent r = 0 then (Inl NoSpendableCoinAge, m)
                   else
                     (case spendCoinAge e (currentBlock m) selfAddr (totalSpent r) (inputs r) of
                        (coinageTX, b') \<Rightarrow>
                          (let m = m\<lparr>currentBlock := b'\<rparr> in
                           case outputs coinageTX of
                             [] \<Rightarrow> (Inl TypeError, m)
                           | out0 # _ \<Rightarrow>
                               (case addUTXO (wallet m) out0 (tx_id coinageTX) 0 of
                                  (Inl err, w') \<Rightarrow> (Inl err, m\<lparr>wallet := w'\<rparr>)
                                | (Inr _, w') \<Rightarrow>
                                    (Inr (),
                                     m\<lparr>wallet := saveEligibilityProof_sw e w'
                                                    (currentBlock m)\<rparr>)))))))"

text \<open>The eligibility test that ends \<open>startNewSearch\<close>.\<close>

definition checkEligibility :: "bool \<Rightarrow> miner \<Rightarrow> (error + unit) \<times> miner" where
  "checkEligibility reuseRewardAddress m =
     (case isEligibileToMint m (currentBlock m) (mint_elegibility_diff_dyn m) of
        Inl err \<Rightarrow> (Inl err, m)
      | Inr True \<Rightarrow> (Inr (), (log_m m LogEligible)\<lparr>shouldMine := True\<rparr>)
      | Inr False \<Rightarrow>
          (let m = m\<lparr>shouldMine := False\<rparr>;
               m = log_m m LogUnableToMint;
               m = m\<lparr>mint_elegibility_diff_dyn := mint_elegibility_diff_dyn m - 1\<rparr>
           in (Inr (), m\<lparr>mintingTimeout := Some reuseRewardAddress\<rparr>)))"

definition startNewSearch ::
  "env \<Rightarrow> keypair \<Rightarrow> keypair \<Rightarrow> bool \<Rightarrow> miner \<Rightarrow> (error + unit) \<times> miner" where
  "startNewSearch e kp1 kp2 reuseRewardAddress m =
     (if shouldStartNewBlock m then
        (case buildCandidate e kp1 kp2 reuseRewardAddress m of
           (Inl err, m') \<Rightarrow> (Inl err, m')
         | (Inr _, m') \<Rightarrow> checkEligibility reuseRewardAddress m')
      else checkEligibility reuseRewardAddress m)"

text \<open>
  The pending retry timer fires: \<open>INIT_MINTING\<close> is emitted with the stored argument
  and its handler is \<open>startNewSearch\<close>. \<open>retries n\<close> lets the timer fire up to \<open>n\<close>
  times, stopping when none is pending or a handler throws.
\<close>

fun retries :: "env \<Rightarrow> keypair \<Rightarrow> keypair \<Rightarrow> nat \<Rightarrow> miner \<Rightarrow> (error + unit) \<times> miner" where
  "retries e kp1 kp2 0 m = (Inr (), m)"
| "retries e kp1 kp2 (Suc n) m =
     (case mintingTimeout m of
        None \<Rightarrow> (Inr (), m)
      | Some reuseRewardAddress \<Rightarrow>
          (case startNewSearch e kp1 kp2 reuseRewardAddress (m\<lparr>mintingTimeout := None\<rparr>) of
             (Inl err, m') \<Rightarrow> (Inl err, m')
           | (Inr _, m') \<Rightarrow> retries e kp1 kp2 n m'))"

text \<open>
  \<open>isValidBlock(b, miner = null)\<close>; \<open>now\<close> is \<open>Date.now()\<close>. The sender is \<open>None\<close> for
  \<open>null\<close>. \<open>Math.floor(diff / 30000)\<close> is \<open>div\<close> on integers.
\<close>

definition isValidBlock ::
  "env \<Rightarrow> int \<Rightarrow> miner \<Rightarrow> block \<Rightarrow> miner option \<Rightarrow> (error + bool) \<times> miner" where
  "isValidBlock e now m b sender =
     (case sender of
        None \<Rightarrow> (if \<not> verifyProof e b then (Inr False, m) else (Inr True, m))
      | Some miner' \<Rightarrow>
          (let currentTime = now;
               blockTimestamp = timestamp b;
               diff = currentTime - blockTimestamp + 100;
               minMintingDifficulty =
                 MINT_ELEGIBILITY_DIFFICULTY - diff div TIME_UNTIL_ELIGIBILITY_DECREASE
           in case isEligibileToMint miner' b minMintingDifficulty of
                Inl err \<Rightarrow> (Inl err, m)
              | Inr False \<Rightarrow> (Inl IneligibleMinter, log_m m (LogNotAllowed (name miner')))
              | Inr True \<Rightarrow>
                  (if \<not> verifyProof e b then (Inr False, m) else (Inr True, m))))"

text \<open>\<open>this !== miner\<close> compares object identity.\<close>

definition sameMiner :: "miner \<Rightarrow> miner option \<Rightarrow> bool" where
  "sameMiner m sender = (case sender of None \<Rightarrow> False | Some miner' \<Rightarrow> ident miner' = ident m)"

text \<open>
  \<open>receiveBlock({block: s, miner})\<close>. The result is \<open>Some False\<close> for \<open>return false\<close>
  and \<open>None\<close> when the function runs to its end (\<open>undefined\<close>).
\<close>

definition receiveBlock ::
  "env \<Rightarrow> keypair \<Rightarrow> keypair \<Rightarrow> int \<Rightarrow> miner \<Rightarrow> string \<Rightarrow> miner option
     \<Rightarrow> (error + bool option) \<times> miner" where
  "receiveBlock e kp1 kp2 now m s sender =
     (let b = deserialize e s in
      case isValidBlock e now m b sender of
        (Inl err, m) \<Rightarrow> (Inl err, m)
      | (Inr False, m) \<Rightarrow> (Inr (Some False), log_m m LogRejecting)
      | (Inr True, m) \<Rightarrow>
          (let m = (if previousBlocks m (hashVal e b) = None
                    then m\<lparr>previousBlocks := (previousBlocks m)(hashVal e b \<mapsto> b)\<rparr>
                    else m)
           in if chainLength b \<ge> chainLength (currentBlock m) \<and> \<not> sameMiner m sender then
                (let m = log_m m LogCuttingOver;
                     m = m\<lparr>currentBlock := b\<rparr>;
                     m = m\<lparr>shouldStartNewBlock := True\<rparr>
                 in case startNewSearch e kp1 kp2 True m of
                      (Inl err, m') \<Rightarrow> (Inl err, m')
                    | (Inr _, m') \<Rightarrow> (Inr None, m'))
              else (Inr None, m)))"

subsection \<open>Concrete collaborators and objects for running the model\<close>

text \<open>
  Modelled from the spec: \<open>block.js\<close> and \<open>utils.js\<close> are not among the modelled
  files. The aged UTXOs of a wallet are the outputs of the ledger view that the wallet
  has a key for and that were not created in the still-open block
  (\<open>chainNum < chainLength\<close>, the test \<open>balanceOnChain\<close> makes); all its UTXOs are those
  it has a key for. A new block is chained on its parent by the parent's hash and is one
  longer. The coin-age transaction has one output, to the given address. The remaining
  functions are small stand-ins; they are used only where the model is run on a
  concrete input.
\<close>

definition ownedUTXOs :: "block \<Rightarrow> wallet \<Rightarrow> utxo list" where
  "ownedUTXOs b w = filter (\<lambda>u. hasKey w (address u)) (concat (map snd (utxos b)))"

definition agedUTXOs :: "block \<Rightarrow> wallet \<Rightarrow> utxo list" where
  "agedUTXOs b w = filter (\<lambda>u. chainNum u < chainLength b) (ownedUTXOs b w)"

definition fxBlock :: "string \<Rightarrow> int \<Rightarrow> int \<Rightarrow> (string \<times> utxo list) list \<Rightarrow> block" where
  "fxBlock prev len ts us =
     \<lparr>prevBlockHash = prev, chainLength = len, utxos = us, proof_ctr = 0, target = 0,
      timestamp = ts\<rparr>"

definition fxEnv :: env where
  "fxEnv =
     \<lparr>sign = (\<lambda>key u. ''sig-'' @ address u),
      calcAddress = (\<lambda>pub. ''addr-'' @ pub),
      hash = (\<lambda>s. ''h'' @ s),
      getAllAgedUTXOsBelongingTo = agedUTXOs,
      getAllUTXOsBelongingTo = ownedUTXOs,
      newBlock = (\<lambda>r p. fxBlock (''9c'' @ prevBlockHash p) (chainLength p + 1)
                          (timestamp p) (utxos p)),
      determineTargetBasedOnCoinAge = (\<lambda>age. 20 - min 4 \<lfloor>age\<rfloor>),
      spendCoinAge = (\<lambda>b dest amt ins.
         (\<lparr>tx_id = ''coinage'',
           outputs = [\<lparr>address = dest, amount = amt, chainNum = chainLength b\<rparr>]\<rparr>,
          b\<lparr>utxos := (''coinage'',
                       [\<lparr>address = dest, amount = amt, chainNum = chainLength b\<rparr>])
                      # utxos b\<rparr>)),
      deserialize = (\<lambda>s. fxBlock (take 4 s) (int (length s)) 0
                          [(''tx-addr-A'', [\<lparr>address = ''addr-A'', amount = 30, chainNum = 0\<rparr>])]),
      hashVal = (\<lambda>b. ''9c'' @ prevBlockHash b),
      verifyProof = (\<lambda>b. chainLength b \<noteq> 5)\<rparr>"

definition fxWallet :: "coin list \<Rightarrow> (string \<rightharpoonup> keypair) \<Rightarrow> string option \<Rightarrow> wallet" where
  "fxWallet cs ks fp =
     \<lparr>coins = cs, addresses = ks, addresses_proto = None, eligibility_address = fp\<rparr>"

definition fxMiner :: "nat \<Rightarrow> wallet \<Rightarrow> int \<Rightarrow> block \<Rightarrow> miner" where
  "fxMiner i w d b =
     \<lparr>ident = i, name = ''Minnie'', wallet = w, mint_elegibility_diff_dyn = d,
      previousBlocks = Map.empty, currentBlock = b, rewardAddress = Some ''reward'',
      shouldStartNewBlock = False, shouldMine = False, mintingTimeout = None,
      console = []\<rparr>"

definition fxKey :: "string \<Rightarrow> keypair" where
  "fxKey s = \<lparr>kp_public = s, kp_private = Some (''priv-'' @ s)\<rparr>"

definition fxCoin :: "string \<Rightarrow> int \<Rightarrow> int \<Rightarrow> coin" where
  "fxCoin a n k =
     \<lparr>coin_output = \<lparr>address = a, amount = n, chainNum = k\<rparr>, txID = ''tx-'' @ a,
      outputIndex = 0, pubKey = None, sig = None\<rparr>"

text \<open>
  A wallet with keys for two addresses and two coins in its queue: the newer coin, at
  \<open>addr-B\<close>, was created in the still-open block of the view \<open>fxView\<close> (chain length 2),
  the older one, at \<open>addr-A\<close>, at chain length 0. \<open>fxSigned c\<close> is \<open>c\<close> once spending
  has set its \<open>pubKey\<close> and \<open>sig\<close>.
\<close>

definition fxKeys :: "string \<rightharpoonup> keypair" where
  "fxKeys = [''addr-A'' \<mapsto> fxKey ''A'', ''addr-B'' \<mapsto> fxKey ''B'']"

definition fxWalletAB :: wallet where
  "fxWalletAB = fxWallet [fxCoin ''addr-B'' 40 2, fxCoin ''addr-A'' 30 0] fxKeys None"

definition fxView :: block where
  "fxView = fxBlock ''9c00'' 2 0
     [(''tx-addr-A'', [\<lparr>address = ''addr-A'', amount = 30, chainNum = 0\<rparr>]),
      (''tx-addr-B'', [\<lparr>address = ''addr-B'', amount = 40, chainNum = 2\<rparr>])]"

definition fxSigned :: "coin \<Rightarrow> coin" where
  "fxSigned c = c\<lparr>pubKey := Some (drop 5 (address (coin_output c))),
                   sig := Some (''sig-'' @ address (coin_output c))\<rparr>"

text \<open>
  A wallet whose only coin, worth 50, is an output of the still-open block of its
  miner's view (chain length 1): nothing of it is confirmed on the chain.
\<close>

definition fxWalletFresh :: wallet where
  "fxWalletFresh = fxWallet [fxCoin ''addr-A'' 50 1] fxKeys None"

definition fxViewFresh :: block where
  "fxViewFresh = fxBlock ''9c00'' 1 0
     [(''tx-addr-A'', [\<lparr>address = ''addr-A'', amount = 50, chainNum = 1\<rparr>])]"





text \<open>
  Miners for running the engine: \<open>fxWaiting\<close> is between retries on \<open>fxView\<close> with the
  fingerprint \<open>12345\<close>; \<open>fxLocal\<close> owns the two-coin wallet; \<open>fxSender fp\<close> is another
  miner, with fingerprint \<open>fp\<close>.
\<close>

definition fxWaiting :: miner where
  "fxWaiting = fxMiner 1 (fxWallet [] fxKeys (Some ''12345'')) 3 fxView"

definition fxLocal :: miner where
  "fxLocal = fxMiner 1 (fxWalletAB\<lparr>eligibility_address := Some ''9c00''\<rparr>) 3 fxView"

definition fxSender :: "string \<Rightarrow> miner" where
  "fxSender fp = fxMiner 2 (fxWallet [] fxKeys (Some fp)) 3 fxView"

subsection \<open>The specification's wording, for comparison with the code\<close>

text \<open>
  The bit-match count: the number of leading positions at which the two bit strings
  agree, stopping at the first disagreement.
\<close>

definition leadingMatches :: "string \<Rightarrow> string \<Rightarrow> nat" where
  "leadingMatches xs ys = length (takeWhile (\<lambda>(x, y). x = y) (zip xs ys))"

text \<open>
  A hash, a fingerprint: at least three characters, all printable (codes from 32 on), as
  every hex or base64 digest, every concatenation of addresses and the sentinel \<open>12345\<close>
  are.
\<close>

definition digestLike :: "string \<Rightarrow> bool" where
  "digestLike s \<longleftrightarrow> 3 \<le> length s \<and> (\<forall>c \<in> set s. 32 \<le> (of_char c :: nat))"




text \<open>What identifies a coin of the queue: the triple \<open>{output, txID, outputIndex}\<close>.\<close>

definition coinTriple :: "coin \<Rightarrow> utxo \<times> string \<times> nat" where
  "coinTriple c = (coin_output c, txID c, outputIndex c)"

text \<open>
  A miner between retries of one proposal cycle: no new block is to be started, the
  fingerprint \<open>fp\<close> is saved, and the two projections have the same length.
\<close>

definition steady :: "miner \<Rightarrow> string \<Rightarrow> bool" where
  "steady m fp \<longleftrightarrow> \<not> shouldStartNewBlock m \<and> getEligibilityAddress (wallet m) = Some fp
     \<and> length (text2Binary (prevBlockHash (currentBlock m))) = length (text2Binary fp)"

subsection \<open>Properties of the bit-matching helpers\<close>

lemma countLoop_drop:
  "length s1 = length s2 \<Longrightarrow> i \<le> length s1 \<Longrightarrow>
   countLoop s1 s2 i totl = totl + leadingMatches (drop i s1) (drop i s2)"
proof (induction s1 s2 i totl rule: countLoop.induct)
  case (1 s1 s2 i totl)
  show ?case
  proof (cases "i < length s1")
    case False
    with "1.prems" show ?thesis
      by (simp add: countLoop.simps leadingMatches_def)
  next
    case True
    with "1.prems" have lt2: "i < length s2" by simp
    have d1: "drop i s1 = s1 ! i # drop (Suc i) s1"
      using True by (simp add: Cons_nth_drop_Suc)
    have d2: "drop i s2 = s2 ! i # drop (Suc i) s2"
      using lt2 by (simp add: Cons_nth_drop_Suc)
    show ?thesis
    proof (cases "s1 ! i = s2 ! i")
      case eq: True
      have "countLoop s1 s2 i totl = countLoop s1 s2 (i + 1) (totl + 1)"
        using True eq by (subst countLoop.simps) simp
      also have "\<dots> = (totl + 1) + leadingMatches (drop (i + 1) s1) (drop (i + 1) s2)"
        using "1.IH" [OF True eq] "1.prems" True by simp
      also have "\<dots> = totl + leadingMatches (drop i s1) (drop i s2)"
        using eq by (simp add: d1 d2 leadingMatches_def)
      finally show ?thesis .
    next
      case neq: False
      have "countLoop s1 s2 i totl = totl"
        using True neq by (subst countLoop.simps) simp
      moreover have "leadingMatches (drop i s1) (drop i s2) = 0"
        using neq by (simp add: d1 d2 leadingMatches_def)
      ultimately show ?thesis by simp
    qed
  qed
qed

lemma countMatchingBits_eq:
  "length s1 = length s2 \<Longrightarrow> countMatchingBits s1 s2 = Inr (leadingMatches s1 s2)"
  by (simp add: countMatchingBits_def countLoop_drop)

lemma length_text2Binary_le: "length (text2Binary s) \<le> 16"
  by (simp add: text2Binary_def)

lemma length_toString2_pos: "Suc 0 \<le> length (toString2 n)"
  by (subst toString2.simps) simp

lemma length_toString2_ge6: "32 \<le> n \<Longrightarrow> 6 \<le> length (toString2 n)"
proof -
  assume n: "32 \<le> n"
  have s: "\<And>k. 2 \<le> k \<Longrightarrow> length (toString2 k) = Suc (length (toString2 (k div 2)))"
    by (subst toString2.simps) simp
  have "length (toString2 n)
      = Suc (Suc (Suc (Suc (Suc (length (toString2 (n div 2 div 2 div 2 div 2 div 2)))))))"
    using n by (simp add: s)
  with length_toString2_pos [of "n div 2 div 2 div 2 div 2 div 2"] show ?thesis by simp
qed

text \<open>
  Three characters with codes from 32 on (every printable character, so every hex or
  base64 digest) already give the full 16 bits.
\<close>

lemma text2Binary_full:
  assumes "3 \<le> length s" and "\<forall>c \<in> set s. 32 \<le> (of_char c :: nat)"
  shows "length (text2Binary s) = 16"
proof -
  from assms(1) obtain a b c r where s: "s = a # b # c # r"
    by (cases s; cases "tl s"; cases "tl (tl s)") auto
  with assms(2) have "6 \<le> length (toString2 (of_char a))"
    "6 \<le> length (toString2 (of_char b))" "6 \<le> length (toString2 (of_char c))"
    by (auto intro: length_toString2_ge6)
  then show ?thesis by (simp add: text2Binary_def s)
qed

lemma text2Binary_12345: "text2Binary ''12345'' = ''1100011100101100''"
  by code_simp

lemma text2Binary_9c00: "text2Binary ''9c00'' = ''1110011100011110''"
  by code_simp

lemma text2Binary_8f3a: "text2Binary ''8f3a'' = ''1110001100110110''"
  by code_simp

lemma text2Binary_0b1c: "text2Binary ''0b1c'' = ''1100001100010110''"
  by code_simp

lemmas fx_defs = fxWallet_def fxMiner_def fxBlock_def fxCoin_def fxEnv_def fxKey_def
  fxKeys_def fxWalletAB_def fxView_def fxSigned_def fxWalletFresh_def fxViewFresh_def
  agedUTXOs_def ownedUTXOs_def hasKey_def addressesLookup_def truthy_def readKeys_def
  objectPrototypeNames_def

subsection \<open>Eligibility determination\<close>

text \<open>
  What the test returns in general: it answers when the two projections have the same
  length, and throws when they differ (which takes a string of fewer than 16 bits).
\<close>

lemma isEligibileToMint_cases:
  assumes "getEligibilityAddress (wallet m) = Some fp"
  shows "isEligibileToMint m b t =
     (if length (text2Binary (prevBlockHash b)) = length (text2Binary fp)
      then Inr (t \<le> int (leadingMatches (text2Binary (prevBlockHash b)) (text2Binary fp)))
      else Inl MismatchingLength)"
proof (cases "length (text2Binary (prevBlockHash b)) = length (text2Binary fp)")
  case True
  with assms show ?thesis
    by (simp add: isEligibileToMint_def countMatchingBits_eq)
next
  case False
  with assms show ?thesis
    by (simp add: isEligibileToMint_def countMatchingBits_def)
qed

lemma digestLike_16: "digestLike s \<Longrightarrow> length (text2Binary s) = 16"
  unfolding digestLike_def by (rule text2Binary_full) simp_all

text \<open>
  Claim C1. For every previous-block hash and every eligibility fingerprint (each a
  string of at least three printable characters) and every threshold: both strings
  project to 16 bits, and the miner is eligible to mint iff the
  number of leading matching bits of the two projections (counted up to the first
  mismatch) is greater than or equal to the threshold.
\<close>

theorem isEligibileToMint_bit_match:
  assumes "getEligibilityAddress (wallet m) = Some fp"
    and "digestLike (prevBlockHash b)" and "digestLike fp"
  shows "length (text2Binary (prevBlockHash b)) = 16 \<and> length (text2Binary fp) = 16
     \<and> isEligibileToMint m b t
         = Inr (t \<le> int (leadingMatches (text2Binary (prevBlockHash b)) (text2Binary fp)))"
proof -
  from assms(2,3) have l: "length (text2Binary (prevBlockHash b)) = 16"
    "length (text2Binary fp) = 16"
    by (simp_all add: digestLike_16)
  with assms(1) show ?thesis
    by (simp add: isEligibileToMint_def countMatchingBits_eq)
qed

text \<open>
  Claim C1, witness: previous hash \<open>9c00\<close> against the fingerprint \<open>12345\<close>; the 16-bit
  projections agree in the first two positions only, so the miner is eligible at
  threshold 2 and not at threshold 3.
\<close>

theorem isEligibileToMint_bit_match_witness:
  "getEligibilityAddress (wallet (fxMiner 1 (fxWallet [] fxKeys (Some ''12345'')) 3 fxView))
     = Some ''12345''
   \<and> digestLike (prevBlockHash fxView) \<and> digestLike ''12345''
   \<and> text2Binary (prevBlockHash fxView) = ''1110011100011110''
   \<and> text2Binary ''12345'' = ''1100011100101100''
   \<and> isEligibileToMint (fxMiner 1 (fxWallet [] fxKeys (Some ''12345'')) 3 fxView) fxView 2
       = Inr True
   \<and> isEligibileToMint (fxMiner 1 (fxWallet [] fxKeys (Some ''12345'')) 3 fxView) fxView 3
       = Inr False"
proof -
  let ?m = "fxMiner 1 (fxWallet [] fxKeys (Some ''12345'')) 3 fxView"
  have h: "getEligibilityAddress (wallet ?m) = Some ''12345''"
    by (simp add: getEligibilityAddress_def fxMiner_def fxWallet_def)
  have p: "prevBlockHash fxView = ''9c00''"
    by (simp add: fxView_def fxBlock_def)
  have d: "digestLike (prevBlockHash fxView)" "digestLike ''12345''"
    by (simp_all add: p digestLike_def)
  have l: "leadingMatches ''1110011100011110'' ''1100011100101100'' = 2"
    by (simp add: leadingMatches_def)
  show ?thesis
    using h d isEligibileToMint_bit_match [OF h d, of 2]
      isEligibileToMint_bit_match [OF h d, of 3]
    by (simp add: p l text2Binary_9c00 text2Binary_12345)
qed

subsection \<open>Coin age\<close>




text \<open>The doubles \<open>0.7\<close>, \<open>0.2\<close> and \<open>0.1\<close> add up to \<open>0.9999999999999999\<close>, not to 1.\<close>

lemma fadd_7_2_1:
  "fadd (fadd (fadd 0 (max 0 (fmul (fdiv 700 1000) 1))) (max 0 (fmul (fdiv 200 1000) 1)))
        (max 0 (fmul (fdiv 100 1000) 1))
   = 9007199254740991 / 9007199254740992"
  by code_simp






subsection \<open>Spending\<close>

text \<open>
  The invariant of the loop of \<open>spendUTXOsFully\<close>: the queue keeps its coins, what is
  taken off \<open>amount\<close> is the amount of the coins pushed, and only coins at valid
  addresses are pushed.
\<close>

lemma spendFullyLoop_inv:
  "spendFullyLoop e look va cs i needed amt = (res, cs') \<Longrightarrow>
     map coinTriple cs' = map coinTriple cs
   \<and> (\<forall>needed' amt'. res = Inr (needed', amt') \<longrightarrow>
        amt' + (\<Sum>c\<leftarrow>needed'. amount (coin_output c)) = amt + (\<Sum>c\<leftarrow>needed. amount (coin_output c))
      \<and> ((\<forall>c\<in>set needed. address (coin_output c) \<in> set va)
           \<longrightarrow> (\<forall>c\<in>set needed'. address (coin_output c) \<in> set va)))"
proof (induction e look va cs i needed amt arbitrary: res cs' rule: spendFullyLoop.induct)
  case (1 e look va cs i needed amt)
  show ?case
  proof (cases "i < length cs \<and> amt > 0")
    case False
    with "1.prems" show ?thesis
      by (subst (asm) spendFullyLoop.simps) (auto split: if_splits)
  next
    case True
    then have i: "i < length cs" and a: "amt > 0" by simp_all
    show ?thesis
    proof (cases "address (coin_output (cs ! i)) \<in> set va")
      case False
      with i a "1.prems" have
        "spendFullyLoop e look va cs (i + 1) needed amt = (res, cs')"
        by (subst (asm) spendFullyLoop.simps) simp
      from "1.IH"(2) [OF i a refl False this] show ?thesis .
    next
      case inva: True
      show ?thesis
      proof (cases "readKeys (look (address (coin_output (cs ! i))))")
        case None
        with i a inva "1.prems" show ?thesis
          by (subst (asm) spendFullyLoop.simps) auto
      next
        case (Some pk)
        obtain pub priv where pk: "pk = (pub, priv)" by (cases pk)
        define c' where "c' = (cs ! i)\<lparr>pubKey := pub,
                            sig := Some (sign e priv (coin_output (cs ! i)))\<rparr>"
        from i a inva Some "1.prems" have run:
          "spendFullyLoop e look va (cs[i := c']) (i + 1) (needed @ [c'])
             (amt - amount (coin_output c')) = (res, cs')"
          by (subst (asm) spendFullyLoop.simps) (simp add: c'_def pk Let_def)
        have tr: "coinTriple c' = coinTriple (cs ! i)"
          by (simp add: c'_def coinTriple_def)
        have m: "map coinTriple (cs[i := c']) = map coinTriple cs"
          using i tr by (simp add: map_update list_update_same_conv)
        have out: "coin_output c' = coin_output (cs ! i)" by (simp add: c'_def)
        from "1.IH"(1) [OF i a refl inva Some pk [symmetric] c'_def run]
        show ?thesis using m out inva by auto
      qed
    qed
  qed
qed


lemma spendLoop_inv:
  "spendLoop e look cs i needed amt = (res, cs') \<Longrightarrow> map coinTriple cs' = map coinTriple cs"
proof (induction e look cs i needed amt arbitrary: res cs' rule: spendLoop.induct)
  case (1 e look cs i needed amt)
  show ?case
  proof (cases "i < length cs \<and> amt > 0")
    case False
    with "1.prems" show ?thesis
      by (subst (asm) spendLoop.simps) (auto split: if_splits)
  next
    case True
    then have i: "i < length cs" and a: "amt > 0" by simp_all
    show ?thesis
    proof (cases "readKeys (look (address (coin_output (cs ! i))))")
      case None
      with i a "1.prems" show ?thesis
        by (subst (asm) spendLoop.simps) auto
    next
      case (Some pk)
      obtain pub priv where pk: "pk = (pub, priv)" by (cases pk)
      define c' where "c' = (cs ! i)\<lparr>pubKey := pub,
                          sig := Some (sign e priv (coin_output (cs ! i)))\<rparr>"
      from i a Some "1.prems" have run:
        "spendLoop e look (cs[i := c']) (i + 1) (needed @ [c'])
           (amt - amount (coin_output c')) = (res, cs')"
        by (subst (asm) spendLoop.simps) (simp add: c'_def pk Let_def)
      have tr: "coinTriple c' = coinTriple (cs ! i)"
        by (simp add: c'_def coinTriple_def)
      have m: "map coinTriple (cs[i := c']) = map coinTriple cs"
        using i tr by (simp add: map_update list_update_same_conv)
      from "1.IH" [OF i a refl Some pk [symmetric] c'_def run]
      show ?thesis using m by simp
    qed
  qed
qed

lemma spendUTXOs_frame:
  "map coinTriple (coins (snd (spendUTXOs e w amt))) = map coinTriple (coins w)
   \<and> addresses (snd (spendUTXOs e w amt)) = addresses w"
proof (cases "amt > balance w")
  case True
  then show ?thesis by (simp add: spendUTXOs_def)
next
  case False
  obtain res cs' where r: "spendLoop e (addressesLookup w) (coins w) 0 [] amt = (res, cs')"
    by (cases "spendLoop e (addressesLookup w) (coins w) 0 [] amt")
  from spendLoop_inv [OF r] have "map coinTriple cs' = map coinTriple (coins w)" .
  with False r show ?thesis
    by (cases res) (auto simp: spendUTXOs_def split: prod.splits)
qed

lemma spendUTXOsFully_frame:
  "map coinTriple (coins (snd (spendUTXOsFully e w amt m))) = map coinTriple (coins w)
   \<and> addresses (snd (spendUTXOsFully e w amt m)) = addresses w"
proof (cases "amt > balance w")
  case True
  then show ?thesis by (simp add: spendUTXOsFully_def)
next
  case False
  let ?va = "map address (getAllAgedUTXOsBelongingTo e (currentBlock m) w)"
  obtain res cs' where r: "spendFullyLoop e (addressesLookup w) ?va (coins w) 0 [] amt = (res, cs')"
    by (cases "spendFullyLoop e (addressesLookup w) ?va (coins w) 0 [] amt")
  from spendFullyLoop_inv [OF r] have "map coinTriple cs' = map coinTriple (coins w)" by simp
  with False r show ?thesis
    by (cases res) (auto simp: spendUTXOsFully_def Let_def split: prod.splits)
qed

lemma spendUTXOsFully_Inr:
  assumes "spendUTXOsFully e w amt m = (Inr r, w')"
  shows "\<exists>amt'. spendFullyLoop e (addressesLookup w)
           (map address (getAllAgedUTXOsBelongingTo e (currentBlock m) w)) (coins w) 0 [] amt
           = (Inr (inputs r, amt'), coins w') \<and> totalSpent r = amt - amt'"
  using assms
  by (auto simp: spendUTXOsFully_def Let_def split: if_splits prod.splits sum.splits)

lemma spendFullyLoop_error:
  "spendFullyLoop e look va cs i needed amt = (Inl err, cs') \<Longrightarrow> err = TypeError"
proof (induction e look va cs i needed amt rule: spendFullyLoop.induct)
  case (1 e look va cs i needed amt)
  from "1.prems" have i: "i < length cs" and a: "amt > 0"
    by (subst (asm) spendFullyLoop.simps; simp split: if_splits)+
  show ?case
  proof (cases "address (coin_output (cs ! i)) \<in> set va")
    case False
    with i a "1.prems" have "spendFullyLoop e look va cs (i + 1) needed amt = (Inl err, cs')"
      by (subst (asm) spendFullyLoop.simps) simp
    from "1.IH"(2) [OF i a refl False this] show ?thesis .
  next
    case inva: True
    show ?thesis
    proof (cases "readKeys (look (address (coin_output (cs ! i))))")
      case None
      with i a inva "1.prems" show ?thesis
        by (subst (asm) spendFullyLoop.simps) auto
    next
      case (Some pk)
      obtain pub priv where pk: "pk = (pub, priv)" by (cases pk)
      define c' where "c' = (cs ! i)\<lparr>pubKey := pub,
                          sig := Some (sign e priv (coin_output (cs ! i)))\<rparr>"
      from i a inva Some "1.prems" have
        "spendFullyLoop e look va (cs[i := c']) (i + 1) (needed @ [c'])
           (amt - amount (coin_output c')) = (Inl err, cs')"
        by (subst (asm) spendFullyLoop.simps) (simp add: c'_def pk Let_def)
      from "1.IH"(1) [OF i a refl inva Some pk [symmetric] c'_def this] show ?thesis .
    qed
  qed
qed

text \<open>
  \<open>spendUTXOsFully\<close> throws "Insufficient funds" exactly when the request exceeds the
  sum of the local queue; the ledger view plays no part in that test.
\<close>

lemma spendUTXOsFully_insufficient:
  "fst (spendUTXOsFully e w amt m) = Inl InsufficientFunds \<longleftrightarrow> amt > balance w"
proof (cases "amt > balance w")
  case True
  then show ?thesis by (simp add: spendUTXOsFully_def)
next
  case False
  let ?va = "map address (getAllAgedUTXOsBelongingTo e (currentBlock m) w)"
  obtain res cs' where r: "spendFullyLoop e (addressesLookup w) ?va (coins w) 0 [] amt = (res, cs')"
    by (cases "spendFullyLoop e (addressesLookup w) ?va (coins w) 0 [] amt")
  have "res \<noteq> Inl InsufficientFunds"
    using spendFullyLoop_error r by fastforce
  with False r show ?thesis
    by (cases res) (auto simp: spendUTXOsFully_def Let_def split: prod.splits)
qed

text \<open>
  Claim C6: a wallet whose on-chain balance is 0 should see \<open>spendUTXOsFully(50, view)\<close>
  fail with "Insufficient funds". The code compares with the local balance instead (its
  own comment asks not to). Here the wallet's only coin, worth 50, is an output of the
  still-open block: the on-chain balance is 0, and the call returns no inputs and
  \<open>totalSpent = 0\<close> without throwing.
\<close>

theorem spendUTXOsFully_local_balance_only:
  "balanceOnChain fxWalletFresh (fxMiner 1 fxWalletFresh 3 fxViewFresh) = 0
   \<and> spendUTXOsFully fxEnv fxWalletFresh 50 (fxMiner 1 fxWalletFresh 3 fxViewFresh)
       = (Inr \<lparr>inputs = [], totalSpent = 0\<rparr>, fxWalletFresh)"
  by (simp add: balanceOnChain_def spendUTXOsFully_def balance_def spendFullyLoop.simps
      Let_def fx_defs del: set_filter)

text \<open>The run of \<open>spendUTXOsFully\<close> that the statements below start from.\<close>

lemma spendUTXOsFully_AB:
  "spendUTXOsFully fxEnv fxWalletAB 20 (fxMiner 1 fxWalletAB 3 fxView)
   = (Inr \<lparr>inputs = [fxSigned (fxCoin ''addr-A'' 30 0)], totalSpent = 30\<rparr>,
      fxWalletAB\<lparr>coins := [fxCoin ''addr-B'' 40 2, fxSigned (fxCoin ''addr-A'' 30 0)]\<rparr>)"
  by (simp add: spendUTXOsFully_def balance_def spendFullyLoop.simps Let_def fx_defs
      del: set_filter)

lemma spendUTXOs_AB:
  "spendUTXOs fxEnv fxWalletAB 50
   = (Inr \<lparr>inputs = [fxSigned (fxCoin ''addr-B'' 40 2), fxSigned (fxCoin ''addr-A'' 30 0)],
           changeAmt = 20\<rparr>,
      fxWalletAB\<lparr>coins := [fxSigned (fxCoin ''addr-B'' 40 2),
                            fxSigned (fxCoin ''addr-A'' 30 0)]\<rparr>)"
  by (simp add: spendUTXOs_def balance_def spendLoop.simps Let_def fx_defs)




text \<open>
  Claim C9. A call of \<open>spendUTXOs\<close> or of \<open>spendUTXOsFully\<close> that does not throw removes
  no coin from the queue: afterwards the queue holds the same coins (output, transaction
  id and output index) in the same order, and as many of them.
\<close>

theorem spending_keeps_queue:
  "(spendUTXOs e w amt = (Inr r, w') \<longrightarrow>
      map coinTriple (coins w') = map coinTriple (coins w)
      \<and> length (coins w') = length (coins w))
   \<and> (spendUTXOsFully e w amt m = (Inr r2, w2) \<longrightarrow>
      map coinTriple (coins w2) = map coinTriple (coins w)
      \<and> length (coins w2) = length (coins w))"
proof (intro conjI impI)
  assume a: "spendUTXOs e w amt = (Inr r, w')"
  with spendUTXOs_frame [of e w amt]
  show "map coinTriple (coins w') = map coinTriple (coins w)" by simp
  then show "length (coins w') = length (coins w)" by (rule map_eq_imp_length_eq)
next
  assume a: "spendUTXOsFully e w amt m = (Inr r2, w2)"
  with spendUTXOsFully_frame [of e w amt m]
  show "map coinTriple (coins w2) = map coinTriple (coins w)" by simp
  then show "length (coins w2) = length (coins w)" by (rule map_eq_imp_length_eq)
qed

text \<open>
  Claim C9, witness: spending 50 from the two-coin wallet signs both coins and leaves
  both in the queue; spending 20 against the view signs one and leaves both.
\<close>

theorem spending_keeps_queue_witness:
  "spendUTXOs fxEnv fxWalletAB 50
     = (Inr \<lparr>inputs = [fxSigned (fxCoin ''addr-B'' 40 2), fxSigned (fxCoin ''addr-A'' 30 0)],
             changeAmt = 20\<rparr>,
        fxWalletAB\<lparr>coins := [fxSigned (fxCoin ''addr-B'' 40 2),
                              fxSigned (fxCoin ''addr-A'' 30 0)]\<rparr>)
   \<and> map coinTriple [fxSigned (fxCoin ''addr-B'' 40 2), fxSigned (fxCoin ''addr-A'' 30 0)]
       = map coinTriple (coins fxWalletAB)
   \<and> map coinTriple [fxCoin ''addr-B'' 40 2, fxSigned (fxCoin ''addr-A'' 30 0)]
       = map coinTriple (coins fxWalletAB)
   \<and> length (coins fxWalletAB) = 2"
  using spending_keeps_queue [of fxEnv fxWalletAB 50
      "\<lparr>inputs = [fxSigned (fxCoin ''addr-B'' 40 2), fxSigned (fxCoin ''addr-A'' 30 0)],
        changeAmt = 20\<rparr>"
      "fxWalletAB\<lparr>coins := [fxSigned (fxCoin ''addr-B'' 40 2),
                            fxSigned (fxCoin ''addr-A'' 30 0)]\<rparr>"]
    spending_keeps_queue [of fxEnv fxWalletAB 20 _ _ "fxMiner 1 fxWalletAB 3 fxView"
      "\<lparr>inputs = [fxSigned (fxCoin ''addr-A'' 30 0)], totalSpent = 30\<rparr>"
      "fxWalletAB\<lparr>coins := [fxCoin ''addr-B'' 40 2, fxSigned (fxCoin ''addr-A'' 30 0)]\<rparr>"]
    spendUTXOs_AB spendUTXOsFully_AB
  by (simp add: fxWalletAB_def fxWallet_def)

lemma sum_list_butlast_last:
  "xs \<noteq> [] \<Longrightarrow> sum_list (map f xs) = sum_list (map f (butlast xs)) + f (last xs)"
  for f :: "'a \<Rightarrow> int"
  by (induction xs) auto

text \<open>
  Claim C10. When \<open>spendUTXOsFully\<close> does not throw, \<open>totalSpent\<close> is the sum of the
  amounts of the returned inputs; so when the amount of the last selected coin exceeds
  what was still requested before it, \<open>totalSpent\<close> is strictly more than the request.
\<close>

theorem spendUTXOsFully_totalSpent:
  assumes "spendUTXOsFully e w amt m = (Inr r, w')"
  shows "totalSpent r = (\<Sum>c\<leftarrow>inputs r. amount (coin_output c))
     \<and> (inputs r \<noteq> [] \<and>
          amt - (\<Sum>c\<leftarrow>butlast (inputs r). amount (coin_output c))
            < amount (coin_output (last (inputs r)))
        \<longrightarrow> amt < totalSpent r)"
proof -
  from spendUTXOsFully_Inr [OF assms] obtain amt' where
    l: "spendFullyLoop e (addressesLookup w)
       (map address (getAllAgedUTXOsBelongingTo e (currentBlock m) w)) (coins w) 0 [] amt
       = (Inr (inputs r, amt'), coins w')" and t: "totalSpent r = amt - amt'" by blast
  from spendFullyLoop_inv [OF l]
  have "amt' + (\<Sum>c\<leftarrow>inputs r. amount (coin_output c)) = amt"
    by simp
  with t have s: "totalSpent r = (\<Sum>c\<leftarrow>inputs r. amount (coin_output c))" by simp
  have "amt < totalSpent r"
    if ne: "inputs r \<noteq> []"
      and ov: "amt - (\<Sum>c\<leftarrow>butlast (inputs r). amount (coin_output c))
            < amount (coin_output (last (inputs r)))"
  proof -
    from ne have "(\<Sum>c\<leftarrow>inputs r. amount (coin_output c))
        = (\<Sum>c\<leftarrow>butlast (inputs r). amount (coin_output c))
          + amount (coin_output (last (inputs r)))"
      by (rule sum_list_butlast_last)
    with ov s show ?thesis by simp
  qed
  with s show ?thesis by blast
qed

text \<open>
  Claim C10, witness: 20 is requested, the selected coin is worth 30, and
  \<open>totalSpent\<close> is 30.
\<close>

theorem spendUTXOsFully_totalSpent_witness:
  "spendUTXOsFully fxEnv fxWalletAB 20 (fxMiner 1 fxWalletAB 3 fxView)
     = (Inr \<lparr>inputs = [fxSigned (fxCoin ''addr-A'' 30 0)], totalSpent = 30\<rparr>,
        fxWalletAB\<lparr>coins := [fxCoin ''addr-B'' 40 2, fxSigned (fxCoin ''addr-A'' 30 0)]\<rparr>)
   \<and> (\<Sum>c\<leftarrow>[fxSigned (fxCoin ''addr-A'' 30 0)]. amount (coin_output c)) = 30
   \<and> (20::int) < 30"
  using spendUTXOsFully_totalSpent [OF spendUTXOsFully_AB] spendUTXOsFully_AB
  by simp

subsection \<open>Keys of the coins in the queue\<close>

text \<open>
  \<open>addUTXO\<close> throws exactly when \<open>this.addresses[utxo.address]\<close> is \<open>undefined\<close>, and then
  leaves the wallet as it was. For a wallet whose address object still has
  \<open>Object.prototype\<close> as prototype, and an address that is not the name of one of its
  properties, that is exactly when no key pair is registered for the address.
\<close>

lemma addUTXO_throws_iff:
  "fst (addUTXO w u t k) = Inl MissingKeyError
     \<longleftrightarrow> addressesLookup w (address u) = JSUndefined"
  by (simp add: addUTXO_def)

lemma addUTXO_rejected_unchanged:
  "fst (addUTXO w u t k) = Inl MissingKeyError \<Longrightarrow> snd (addUTXO w u t k) = w"
  by (simp add: addUTXO_def split: if_splits)

lemma addUTXO_plain_address:
  assumes "addresses_proto w = None" and "address u \<notin> set objectPrototypeNames"
  shows "fst (addUTXO w u t k) = Inl MissingKeyError \<longleftrightarrow> addresses w (address u) = None"
  using assms by (simp add: addUTXO_def addressesLookup_def split: option.splits)

text \<open>
  Claim C8: \<open>addUTXO\<close> is to throw exactly when the address of the incoming UTXO has no
  key pair in the wallet, so that every queued coin has its address in the address map.
  The guard reads \<open>this.addresses[utxo.address]\<close> on a plain object, which also finds
  what every object inherits: a new wallet, with no key pair at all, accepts a UTXO at the
  address \<open>constructor\<close> and queues it, and \<open>hasKey\<close> answers \<open>true\<close> for that address.
\<close>

theorem addUTXO_inherited_name:
  "addresses newWallet ''constructor'' = None
   \<and> addUTXO newWallet \<lparr>address = ''constructor'', amount = 50, chainNum = 1\<rparr> ''tx'' 0
       = (Inr (),
          newWallet\<lparr>coins :=
            [\<lparr>coin_output = \<lparr>address = ''constructor'', amount = 50, chainNum = 1\<rparr>,
              txID = ''tx'', outputIndex = 0, pubKey = None, sig = None\<rparr>]\<rparr>)
   \<and> hasKey newWallet ''constructor''"
  by (simp add: newWallet_def addUTXO_def hasKey_def addressesLookup_def truthy_def
      objectPrototypeNames_def)

subsection \<open>Retries of the eligibility test\<close>

lemma isEligibileToMint_equal_length:
  assumes "getEligibilityAddress (wallet m) = Some fp"
    and "length (text2Binary (prevBlockHash b)) = length (text2Binary fp)"
  shows "isEligibileToMint m b t
     = Inr (t \<le> int (leadingMatches (text2Binary (prevBlockHash b)) (text2Binary fp)))"
  using assms by (simp add: isEligibileToMint_def countMatchingBits_eq)

lemma startNewSearch_steady_eligible:
  assumes "steady m fp"
    and "mint_elegibility_diff_dyn m
          \<le> int (leadingMatches (text2Binary (prevBlockHash (currentBlock m))) (text2Binary fp))"
  shows "startNewSearch e kp1 kp2 r m = (Inr (), (log_m m LogEligible)\<lparr>shouldMine := True\<rparr>)"
  using assms
  by (simp add: steady_def startNewSearch_def checkEligibility_def
      isEligibileToMint_equal_length)

lemma startNewSearch_steady_failed:
  assumes "steady m fp"
    and "\<not> mint_elegibility_diff_dyn m
          \<le> int (leadingMatches (text2Binary (prevBlockHash (currentBlock m))) (text2Binary fp))"
  shows "startNewSearch e kp1 kp2 r m
     = (Inr (), m\<lparr>shouldMine := False, console := console m @ [LogUnableToMint],
                  mint_elegibility_diff_dyn := mint_elegibility_diff_dyn m - 1,
                  mintingTimeout := Some r\<rparr>)"
  using assms
  by (simp add: steady_def startNewSearch_def checkEligibility_def
      isEligibileToMint_equal_length log_m_def Let_def)

text \<open>
  From a miner between retries whose threshold is \<open>d \<ge> 0\<close>, the eligibility test
  succeeds at the first attempt or at one of the next \<open>d\<close> firings of the retry timer.
\<close>

lemma retries_reach:
  "n = nat (mint_elegibility_diff_dyn m) \<Longrightarrow> 0 \<le> mint_elegibility_diff_dyn m \<Longrightarrow> steady m fp \<Longrightarrow>
   \<exists>k\<le>n. fst (retries e kp1 kp2 k (snd (startNewSearch e kp1 kp2 r m))) = Inr ()
        \<and> shouldMine (snd (retries e kp1 kp2 k (snd (startNewSearch e kp1 kp2 r m))))"
proof (induction n arbitrary: m r)
  case 0
  then have "mint_elegibility_diff_dyn m = 0" by simp
  then have "mint_elegibility_diff_dyn m
      \<le> int (leadingMatches (text2Binary (prevBlockHash (currentBlock m))) (text2Binary fp))"
    by simp
  from startNewSearch_steady_eligible [OF "0.prems"(3) this]
  show ?case by (simp add: log_m_def)
next
  case (Suc n)
  let ?c = "int (leadingMatches (text2Binary (prevBlockHash (currentBlock m))) (text2Binary fp))"
  show ?case
  proof (cases "mint_elegibility_diff_dyn m \<le> ?c")
    case True
    from startNewSearch_steady_eligible [OF Suc.prems(3) True, of e kp1 kp2 r]
    have "fst (retries e kp1 kp2 0 (snd (startNewSearch e kp1 kp2 r m))) = Inr ()
        \<and> shouldMine (snd (retries e kp1 kp2 0 (snd (startNewSearch e kp1 kp2 r m))))"
      by (simp add: log_m_def)
    then show ?thesis by blast
  next
    case False
    define m1 where "m1 = m\<lparr>shouldMine := False, console := console m @ [LogUnableToMint],
                  mint_elegibility_diff_dyn := mint_elegibility_diff_dyn m - 1,
                  mintingTimeout := Some r\<rparr>"
    have s1: "startNewSearch e kp1 kp2 r m = (Inr (), m1)"
      unfolding m1_def by (rule startNewSearch_steady_failed [OF Suc.prems(3) False])
    let ?m2 = "m1\<lparr>mintingTimeout := None\<rparr>"
    have st: "steady ?m2 fp"
      using Suc.prems(3) by (simp add: steady_def m1_def getEligibilityAddress_def)
    have d: "n = nat (mint_elegibility_diff_dyn ?m2)" "0 \<le> mint_elegibility_diff_dyn ?m2"
      using Suc.prems(1,2) by (simp_all add: m1_def)
    from Suc.IH [OF d st, of r] obtain k where k: "k \<le> n"
      "fst (retries e kp1 kp2 k (snd (startNewSearch e kp1 kp2 r ?m2))) = Inr ()"
      "shouldMine (snd (retries e kp1 kp2 k (snd (startNewSearch e kp1 kp2 r ?m2))))"
      by blast
    have ok: "fst (startNewSearch e kp1 kp2 r ?m2) = Inr ()"
      using startNewSearch_steady_eligible [OF st, of e kp1 kp2 r]
        startNewSearch_steady_failed [OF st, of e kp1 kp2 r]
      by (cases "mint_elegibility_diff_dyn ?m2 \<le> int (leadingMatches (text2Binary (prevBlockHash (currentBlock ?m2))) (text2Binary fp))") simp_all
    have "retries e kp1 kp2 (Suc k) m1
        = retries e kp1 kp2 k (snd (startNewSearch e kp1 kp2 r ?m2))"
      using ok by (cases "startNewSearch e kp1 kp2 r ?m2") (simp add: m1_def)
    with k s1 have "Suc k \<le> Suc n
        \<and> fst (retries e kp1 kp2 (Suc k) (snd (startNewSearch e kp1 kp2 r m))) = Inr ()
        \<and> shouldMine (snd (retries e kp1 kp2 (Suc k) (snd (startNewSearch e kp1 kp2 r m))))"
      by simp
    then show ?thesis by blast
  qed
qed


text \<open>
  The retries of a miner whose two projections have the same length: a failed attempt
  lowers the threshold by exactly 1 and schedules a retry, the threshold stays at or
  above zero, and the miner is eligible after at most as many retries as the threshold.
\<close>

lemma retry_equal_length:
  assumes "\<not> shouldStartNewBlock m" and "getEligibilityAddress (wallet m) = Some fp"
    and "length (text2Binary (prevBlockHash (currentBlock m))) = length (text2Binary fp)"
    and "0 \<le> mint_elegibility_diff_dyn m"
  shows "(isEligibileToMint m (currentBlock m) (mint_elegibility_diff_dyn m) = Inr False \<longrightarrow>
            startNewSearch e kp1 kp2 r m
              = (Inr (), m\<lparr>shouldMine := False, console := console m @ [LogUnableToMint],
                           mint_elegibility_diff_dyn := mint_elegibility_diff_dyn m - 1,
                           mintingTimeout := Some r\<rparr>))
     \<and> 0 \<le> mint_elegibility_diff_dyn (snd (startNewSearch e kp1 kp2 r m))
     \<and> (\<exists>k \<le> nat (mint_elegibility_diff_dyn m).
           fst (retries e kp1 kp2 k (snd (startNewSearch e kp1 kp2 r m))) = Inr ()
           \<and> shouldMine (snd (retries e kp1 kp2 k (snd (startNewSearch e kp1 kp2 r m)))))"
proof -
  let ?c = "int (leadingMatches (text2Binary (prevBlockHash (currentBlock m))) (text2Binary fp))"
  have st: "steady m fp" using assms(1-3) by (simp add: steady_def)
  have el: "isEligibileToMint m (currentBlock m) (mint_elegibility_diff_dyn m)
      = Inr (mint_elegibility_diff_dyn m \<le> ?c)"
    using assms(2,3) by (rule isEligibileToMint_equal_length)
  have a: "isEligibileToMint m (currentBlock m) (mint_elegibility_diff_dyn m) = Inr False \<longrightarrow>
            startNewSearch e kp1 kp2 r m
              = (Inr (), m\<lparr>shouldMine := False, console := console m @ [LogUnableToMint],
                           mint_elegibility_diff_dyn := mint_elegibility_diff_dyn m - 1,
                           mintingTimeout := Some r\<rparr>)"
    using startNewSearch_steady_failed [OF st, of e kp1 kp2 r] el by simp
  have b: "0 \<le> mint_elegibility_diff_dyn (snd (startNewSearch e kp1 kp2 r m))"
  proof (cases "mint_elegibility_diff_dyn m \<le> ?c")
    case True
    from startNewSearch_steady_eligible [OF st True, of e kp1 kp2 r] assms(4)
    show ?thesis by (simp add: log_m_def)
  next
    case False
    then have "1 \<le> mint_elegibility_diff_dyn m" by simp
    with startNewSearch_steady_failed [OF st False, of e kp1 kp2 r]
    show ?thesis by simp
  qed
  from retries_reach [OF refl assms(4) st, of e kp1 kp2 r] a b show ?thesis by blast
qed

text \<open>
  Claim C2. For a fixed ledger view and eligibility fingerprint (the previous hash and
  the fingerprint each a string of at least three printable characters; the miner is
  between retries of one proposal cycle, its threshold not negative): a failed attempt lowers the
  threshold by exactly 1, schedules a retry and changes neither the view nor the wallet;
  the threshold stays at or above zero; and, the bit-match count being at least 0, the
  miner is eligible after at most as many retries as the threshold it started from
  (\<open>MINT_ELEGIBILITY_DIFFICULTY\<close>, the initial threshold, at the start of a cycle), no call
  throwing.
\<close>

theorem retry_decreases_threshold:
  assumes "\<not> shouldStartNewBlock m" and "getEligibilityAddress (wallet m) = Some fp"
    and "digestLike (prevBlockHash (currentBlock m))" and "digestLike fp"
    and "0 \<le> mint_elegibility_diff_dyn m"
  shows "(isEligibileToMint m (currentBlock m) (mint_elegibility_diff_dyn m) = Inr False \<longrightarrow>
            startNewSearch e kp1 kp2 r m
              = (Inr (), m\<lparr>shouldMine := False, console := console m @ [LogUnableToMint],
                           mint_elegibility_diff_dyn := mint_elegibility_diff_dyn m - 1,
                           mintingTimeout := Some r\<rparr>))
     \<and> 0 \<le> mint_elegibility_diff_dyn (snd (startNewSearch e kp1 kp2 r m))
     \<and> (\<exists>k \<le> nat (mint_elegibility_diff_dyn m).
           fst (retries e kp1 kp2 k (snd (startNewSearch e kp1 kp2 r m))) = Inr ()
           \<and> shouldMine (snd (retries e kp1 kp2 k (snd (startNewSearch e kp1 kp2 r m)))))"
proof -
  from assms(3,4)
  have "length (text2Binary (prevBlockHash (currentBlock m))) = length (text2Binary fp)"
    by (simp add: digestLike_16)
  from retry_equal_length [OF assms(1,2) this assms(5)] show ?thesis .
qed

lemma leadingMatches_9c00_12345:
  "leadingMatches ''1110011100011110'' ''1100011100101100'' = 2"
  by (simp add: leadingMatches_def)

text \<open>
  Claim C2, witness: view \<open>9c00\<close> and fingerprint \<open>12345\<close> share two leading bits. The
  attempt at threshold 3 fails and leaves threshold 2 with a retry pending; the first
  retry succeeds.
\<close>

theorem retry_decreases_threshold_witness:
  "\<not> shouldStartNewBlock fxWaiting \<and> getEligibilityAddress (wallet fxWaiting) = Some ''12345''
   \<and> digestLike (prevBlockHash (currentBlock fxWaiting)) \<and> digestLike ''12345''
   \<and> 0 \<le> mint_elegibility_diff_dyn fxWaiting
   \<and> isEligibileToMint fxWaiting (currentBlock fxWaiting) (mint_elegibility_diff_dyn fxWaiting) = Inr False
   \<and> mint_elegibility_diff_dyn (snd (startNewSearch fxEnv (fxKey ''A'') (fxKey ''B'') False fxWaiting))
       = 2
   \<and> mintingTimeout (snd (startNewSearch fxEnv (fxKey ''A'') (fxKey ''B'') False fxWaiting))
       = Some False
   \<and> shouldMine (snd (retries fxEnv (fxKey ''A'') (fxKey ''B'') 1
        (snd (startNewSearch fxEnv (fxKey ''A'') (fxKey ''B'') False fxWaiting))))"
proof -
  have h1: "\<not> shouldStartNewBlock fxWaiting" by (simp add: fxWaiting_def fxMiner_def)
  have h2: "getEligibilityAddress (wallet fxWaiting) = Some ''12345''"
    by (simp add: fxWaiting_def fxMiner_def fxWallet_def getEligibilityAddress_def)
  have p: "prevBlockHash (currentBlock fxWaiting) = ''9c00''"
    by (simp add: fxWaiting_def fxMiner_def fxView_def fxBlock_def)
  have h3: "length (text2Binary (prevBlockHash (currentBlock fxWaiting)))
      = length (text2Binary ''12345'')"
    by (simp add: p text2Binary_9c00 text2Binary_12345)
  have g: "digestLike (prevBlockHash (currentBlock fxWaiting))" "digestLike ''12345''"
    by (simp_all add: p digestLike_def)
  have h4: "0 \<le> mint_elegibility_diff_dyn fxWaiting" by (simp add: fxWaiting_def fxMiner_def)
  have d: "mint_elegibility_diff_dyn fxWaiting = 3" by (simp add: fxWaiting_def fxMiner_def)
  have f: "isEligibileToMint fxWaiting (currentBlock fxWaiting) (mint_elegibility_diff_dyn fxWaiting) = Inr False"
    by (simp add: isEligibileToMint_equal_length [OF h2 h3] p text2Binary_9c00
        text2Binary_12345 leadingMatches_9c00_12345 d)
  note t = retry_decreases_threshold [OF h1 h2 g h4, of fxEnv "fxKey ''A''" "fxKey ''B''" False]
  from t f have s: "startNewSearch fxEnv (fxKey ''A'') (fxKey ''B'') False fxWaiting
      = (Inr (), fxWaiting\<lparr>shouldMine := False, console := console fxWaiting @ [LogUnableToMint],
                    mint_elegibility_diff_dyn := mint_elegibility_diff_dyn fxWaiting - 1,
                    mintingTimeout := Some False\<rparr>)" by blast
  have r: "shouldMine (snd (retries fxEnv (fxKey ''A'') (fxKey ''B'') 1
        (fxWaiting\<lparr>shouldMine := False, console := console fxWaiting @ [LogUnableToMint],
                    mint_elegibility_diff_dyn := mint_elegibility_diff_dyn fxWaiting - 1,
                    mintingTimeout := Some False\<rparr>)))"
    using h1 h2
    by (simp add: startNewSearch_def checkEligibility_def isEligibileToMint_def
        getEligibilityAddress_def p d text2Binary_9c00 text2Binary_12345
        countMatchingBits_eq leadingMatches_9c00_12345 log_m_def)
  show ?thesis using h1 h2 g h4 f s r d by simp
qed

subsection \<open>The threshold never goes below zero\<close>

text \<open>
  Whatever the collaborators and the state, and whether or not the call throws: a
  search sets the threshold to \<open>MINT_ELEGIBILITY_DIFFICULTY\<close> when it builds a candidate,
  and it lowers the threshold only after a test that failed, which a threshold of zero or
  less cannot do.
\<close>

lemma checkEligibility_threshold:
  "0 \<le> mint_elegibility_diff_dyn m \<Longrightarrow>
   0 \<le> mint_elegibility_diff_dyn (snd (checkEligibility r m))"
  by (auto simp: checkEligibility_def isEligibileToMint_def log_m_def Let_def
      split: sum.splits bool.splits option.splits)

lemma buildCandidate_threshold:
  "mint_elegibility_diff_dyn (snd (buildCandidate e kp1 kp2 r m)) = MINT_ELEGIBILITY_DIFFICULTY"
proof (cases r)
  case True
  then show ?thesis
    by (simp add: buildCandidate_def log_m_def Let_def
        split: prod.splits sum.splits list.splits)
next
  case False
  obtain a w' where mk: "makeAddress e (wallet m) kp1 = (a, w')"
    by (cases "makeAddress e (wallet m) kp1")
  from False show ?thesis
    by (simp add: buildCandidate_def mk log_m_def Let_def
        split: prod.splits sum.splits list.splits)
qed
lemma startNewSearch_threshold:
  assumes "0 \<le> mint_elegibility_diff_dyn m"
  shows "0 \<le> mint_elegibility_diff_dyn (snd (startNewSearch e kp1 kp2 r m))"
proof (cases "shouldStartNewBlock m")
  case False
  with assms show ?thesis
    by (simp add: startNewSearch_def checkEligibility_threshold)
next
  case True
  obtain res m1 where b: "buildCandidate e kp1 kp2 r m = (res, m1)"
    by (cases "buildCandidate e kp1 kp2 r m")
  with buildCandidate_threshold [of e kp1 kp2 r m]
  have d: "0 \<le> mint_elegibility_diff_dyn m1"
    by (simp add: MINT_ELEGIBILITY_DIFFICULTY_def)
  show ?thesis
    using True b d checkEligibility_threshold [OF d, of r]
    by (cases res) (simp_all add: startNewSearch_def)
qed

lemma receiveBlock_threshold:
  assumes "0 \<le> mint_elegibility_diff_dyn m"
  shows "0 \<le> mint_elegibility_diff_dyn (snd (receiveBlock e kp1 kp2 now m s sender))"
proof -
  have v: "mint_elegibility_diff_dyn (snd (isValidBlock e now m b sender))
      = mint_elegibility_diff_dyn m" for b
    by (simp add: isValidBlock_def log_m_def Let_def
        split: option.splits sum.splits bool.splits)
  obtain res m1 where i: "isValidBlock e now m (deserialize e s) sender = (res, m1)"
    by (cases "isValidBlock e now m (deserialize e s) sender")
  with v [of "deserialize e s"] assms have d: "0 \<le> mint_elegibility_diff_dyn m1" by simp
  show ?thesis
  proof (cases res)
    case (Inl err)
    with i d show ?thesis by (simp add: receiveBlock_def)
  next
    case (Inr ok)
    show ?thesis
    proof (cases ok)
      case False
      with Inr i d show ?thesis by (simp add: receiveBlock_def log_m_def)
    next
      case True
      let ?b = "deserialize e s"
      let ?m2 = "if previousBlocks m1 (hashVal e ?b) = None
                 then m1\<lparr>previousBlocks := (previousBlocks m1)(hashVal e ?b \<mapsto> ?b)\<rparr>
                 else m1"
      let ?m3 = "(log_m ?m2 LogCuttingOver)\<lparr>currentBlock := ?b, shouldStartNewBlock := True\<rparr>"
      have d3: "0 \<le> mint_elegibility_diff_dyn ?m3" using d by (simp add: log_m_def)
      have "snd (receiveBlock e kp1 kp2 now m s sender)
          = (if chainLength ?b \<ge> chainLength (currentBlock ?m2) \<and> \<not> sameMiner ?m2 sender
             then snd (startNewSearch e kp1 kp2 True ?m3) else ?m2)"
        using True Inr i
        by (simp add: receiveBlock_def Let_def split: prod.splits sum.splits)
      with startNewSearch_threshold [OF d3, of e kp1 kp2 True] d
      show ?thesis by simp
    qed
  qed
qed

subsection \<open>Receiving a block\<close>

lemma checkEligibility_keeps:
  "rewardAddress (snd (checkEligibility r m)) = rewardAddress m
   \<and> previousBlocks (snd (checkEligibility r m)) = previousBlocks m
   \<and> currentBlock (snd (checkEligibility r m)) = currentBlock m
   \<and> shouldStartNewBlock (snd (checkEligibility r m)) = shouldStartNewBlock m
   \<and> (\<exists>l. console (snd (checkEligibility r m)) = console m @ l)"
  by (simp add: checkEligibility_def log_m_def Let_def split: sum.splits bool.splits)

lemma buildCandidate_reuse:
  "rewardAddress (snd (buildCandidate e kp1 kp2 True m)) = rewardAddress m
   \<and> previousBlocks (snd (buildCandidate e kp1 kp2 True m))
       = (previousBlocks m)(prevBlockHash (newBlock e (rewardAddress m) (currentBlock m))
            \<mapsto> currentBlock m)
   \<and> \<not> shouldStartNewBlock (snd (buildCandidate e kp1 kp2 True m))
   \<and> (\<exists>l. console (snd (buildCandidate e kp1 kp2 True m)) = console m @ l)"
  by (simp add: buildCandidate_def log_m_def Let_def
      split: prod.splits sum.splits list.splits)

lemma startNewSearch_reuse:
  assumes "shouldStartNewBlock m"
  shows "rewardAddress (snd (startNewSearch e kp1 kp2 True m)) = rewardAddress m
   \<and> previousBlocks (snd (startNewSearch e kp1 kp2 True m))
       = (previousBlocks m)(prevBlockHash (newBlock e (rewardAddress m) (currentBlock m))
            \<mapsto> currentBlock m)
   \<and> \<not> shouldStartNewBlock (snd (startNewSearch e kp1 kp2 True m))
   \<and> (\<exists>l. console (snd (startNewSearch e kp1 kp2 True m)) = console m @ l)"
proof (cases "buildCandidate e kp1 kp2 True m")
  case (Pair res m1)
  note bc = buildCandidate_reuse [of e kp1 kp2 m]
  show ?thesis
  proof (cases res)
    case (Inl err)
    with Pair assms bc show ?thesis by (simp add: startNewSearch_def)
  next
    case (Inr u)
    with Pair assms have "startNewSearch e kp1 kp2 True m = checkEligibility True m1"
      by (simp add: startNewSearch_def)
    with checkEligibility_keeps [of True m1] bc Pair show ?thesis by auto
  qed
qed


lemma isValidBlock_True:
  "isValidBlock e now m b sender = (Inr True, mv) \<Longrightarrow> mv = m"
  by (auto simp: isValidBlock_def Let_def split: option.splits sum.splits bool.splits if_splits)

text \<open>
  Claim C3. For a received block \<open>b\<close> that passes validation: if its chain length is at
  least the local one and the sender is not the receiving miner, the miner cuts over
  to it and starts a new proposal cycle on it: the state after the call is that of
  \<open>startNewSearch(true)\<close> run with \<open>b\<close> as the current block, so the new candidate is
  built on \<open>b\<close> with the reward address the miner already had, \<open>b\<close> is recorded as the
  candidate's parent, and \<open>shouldStartNewBlock\<close> is cleared again; otherwise the call returns with the view, the
  reward address, the wallet and the log as they were. Equal lengths are adopted.
\<close>

theorem receiveBlock_fork_adoption:
  assumes "isValidBlock e now m (deserialize e s) sender = (Inr True, mv)"
  shows "(chainLength (deserialize e s) \<ge> chainLength (currentBlock m) \<and> \<not> sameMiner m sender
          \<longrightarrow>
            previousBlocks (snd (receiveBlock e kp1 kp2 now m s sender))
              (prevBlockHash (newBlock e (rewardAddress m) (deserialize e s)))
              = Some (deserialize e s)
          \<and> rewardAddress (snd (receiveBlock e kp1 kp2 now m s sender)) = rewardAddress m
          \<and> \<not> shouldStartNewBlock (snd (receiveBlock e kp1 kp2 now m s sender))
          \<and> snd (receiveBlock e kp1 kp2 now m s sender)
              = snd (startNewSearch e kp1 kp2 True
                  (m\<lparr>previousBlocks :=
                       (if previousBlocks m (hashVal e (deserialize e s)) = None
                        then (previousBlocks m)(hashVal e (deserialize e s) \<mapsto> deserialize e s)
                        else previousBlocks m),
                     currentBlock := deserialize e s,
                     shouldStartNewBlock := True,
                     console := console m @ [LogCuttingOver]\<rparr>))
          \<and> LogCuttingOver
              \<in> set (drop (length (console m))
                        (console (snd (receiveBlock e kp1 kp2 now m s sender)))))
     \<and> (\<not> (chainLength (deserialize e s) \<ge> chainLength (currentBlock m)
             \<and> \<not> sameMiner m sender)
          \<longrightarrow>
            fst (receiveBlock e kp1 kp2 now m s sender) = Inr None
          \<and> currentBlock (snd (receiveBlock e kp1 kp2 now m s sender)) = currentBlock m
          \<and> rewardAddress (snd (receiveBlock e kp1 kp2 now m s sender)) = rewardAddress m
          \<and> shouldStartNewBlock (snd (receiveBlock e kp1 kp2 now m s sender))
              = shouldStartNewBlock m
          \<and> wallet (snd (receiveBlock e kp1 kp2 now m s sender)) = wallet m
          \<and> console (snd (receiveBlock e kp1 kp2 now m s sender)) = console m)"
proof -
  let ?b = "deserialize e s"
  from isValidBlock_True [OF assms] assms
  have v: "isValidBlock e now m ?b sender = (Inr True, m)" by simp
  define m2 where "m2 = (if previousBlocks m (hashVal e ?b) = None
                    then m\<lparr>previousBlocks := (previousBlocks m)(hashVal e ?b \<mapsto> ?b)\<rparr>
                    else m)"
  have m2: "currentBlock m2 = currentBlock m" "rewardAddress m2 = rewardAddress m"
    "shouldStartNewBlock m2 = shouldStartNewBlock m" "wallet m2 = wallet m"
    "console m2 = console m" "ident m2 = ident m"
    by (simp_all add: m2_def)
  have same: "sameMiner m2 sender = sameMiner m sender"
    by (simp add: sameMiner_def m2 split: option.splits)
  show ?thesis
  proof (cases "chainLength ?b \<ge> chainLength (currentBlock m) \<and> \<not> sameMiner m sender")
    case False
    then have "receiveBlock e kp1 kp2 now m s sender = (Inr None, m2)"
      using v m2(1) same by (auto simp: receiveBlock_def Let_def m2_def)
    with False m2 show ?thesis by simp
  next
    case True
    define m3 where "m3 = m2\<lparr>console := console m2 @ [LogCuttingOver], currentBlock := ?b,
                             shouldStartNewBlock := True\<rparr>"
    have r: "receiveBlock e kp1 kp2 now m s sender
        = (case startNewSearch e kp1 kp2 True m3 of
             (Inl err, m') \<Rightarrow> (Inl err, m') | (Inr _, m') \<Rightarrow> (Inr None, m'))"
      using True v m2(1) same
      by (auto simp: receiveBlock_def Let_def m2_def m3_def log_m_def)
    then have sn: "snd (receiveBlock e kp1 kp2 now m s sender)
        = snd (startNewSearch e kp1 kp2 True m3)"
      by (simp split: prod.splits sum.splits)
    have s3: "shouldStartNewBlock m3" by (simp add: m3_def)
    note k = startNewSearch_reuse [OF s3, of e kp1 kp2]
    have f3: "rewardAddress m3 = rewardAddress m" "currentBlock m3 = ?b"
      "console m3 = console m @ [LogCuttingOver]"
      by (simp_all add: m3_def m2)
    from k obtain l where l: "console (snd (startNewSearch e kp1 kp2 True m3))
        = console m3 @ l" by blast
    have "LogCuttingOver \<in> set (drop (length (console m))
        (console (snd (startNewSearch e kp1 kp2 True m3))))"
      by (simp add: l f3)
    moreover have "m3 = m\<lparr>previousBlocks :=
                       (if previousBlocks m (hashVal e ?b) = None
                        then (previousBlocks m)(hashVal e ?b \<mapsto> ?b)
                        else previousBlocks m),
                     currentBlock := ?b,
                     shouldStartNewBlock := True,
                     console := console m @ [LogCuttingOver]\<rparr>"
      by (simp add: m3_def m2_def)
    ultimately show ?thesis using True k by (simp add: sn f3)
  qed
qed

text \<open>
  Claim C4, as the code has it. When the low-level proof check fails (and the sender is
  absent or passes the adjusted eligibility test), \<open>receiveBlock\<close> logs the rejection and
  returns \<open>false\<close>. When the sender fails the adjusted eligibility test, \<open>isValidBlock\<close>
  logs that the miner is not allowed to mint and throws, and \<open>receiveBlock\<close>, which has
  no handler, passes the error on to its caller.
\<close>

theorem receiveBlock_rejection:
  "(\<not> verifyProof e (deserialize e s) \<and>
      (sender = None \<or>
       (sender = Some sm \<and>
        isEligibileToMint sm (deserialize e s)
          (MINT_ELEGIBILITY_DIFFICULTY
             - (now - timestamp (deserialize e s) + 100) div TIME_UNTIL_ELIGIBILITY_DECREASE)
          = Inr True))
    \<longrightarrow> receiveBlock e kp1 kp2 now m s sender = (Inr (Some False), log_m m LogRejecting))
   \<and> (sender = Some sm \<and>
        isEligibileToMint sm (deserialize e s)
          (MINT_ELEGIBILITY_DIFFICULTY
             - (now - timestamp (deserialize e s) + 100) div TIME_UNTIL_ELIGIBILITY_DECREASE)
          = Inr False
    \<longrightarrow> receiveBlock e kp1 kp2 now m s sender
          = (Inl IneligibleMinter, log_m m (LogNotAllowed (name sm))))"
  by (auto simp: receiveBlock_def isValidBlock_def Let_def)


text \<open>
  Claim C3, witness. A block of chain length 6 from another miner whose fingerprint
  equals its previous hash \<open>9c00\<close> is valid, and the local miner (chain length 2) cuts
  over: the candidate's parent entry \<open>9c9c00\<close> is the block, the reward address is kept.
  The same block announced by the local miner itself is not adopted.
\<close>

theorem receiveBlock_fork_adoption_witness:
  "isValidBlock fxEnv 0 fxLocal (deserialize fxEnv ''9c00xx'') (Some (fxSender ''9c00''))
     = (Inr True, fxLocal)
   \<and> chainLength (deserialize fxEnv ''9c00xx'') \<ge> chainLength (currentBlock fxLocal)
   \<and> \<not> sameMiner fxLocal (Some (fxSender ''9c00''))
   \<and> previousBlocks
         (snd (receiveBlock fxEnv (fxKey ''R'') (fxKey ''S'') 0 fxLocal ''9c00xx''
                 (Some (fxSender ''9c00''))))
         ''9c9c00''
       = Some (deserialize fxEnv ''9c00xx'')
   \<and> rewardAddress
         (snd (receiveBlock fxEnv (fxKey ''R'') (fxKey ''S'') 0 fxLocal ''9c00xx''
                 (Some (fxSender ''9c00''))))
       = Some ''reward''
   \<and> isValidBlock fxEnv 0 fxLocal (deserialize fxEnv ''9c00xx'') (Some fxLocal)
       = (Inr True, fxLocal)
   \<and> sameMiner fxLocal (Some fxLocal)
   \<and> currentBlock
         (snd (receiveBlock fxEnv (fxKey ''R'') (fxKey ''S'') 0 fxLocal ''9c00xx''
                 (Some fxLocal)))
       = fxView"
proof -
  have b: "deserialize fxEnv ''9c00xx''
      = fxBlock ''9c00'' 6 0
          [(''tx-addr-A'', [\<lparr>address = ''addr-A'', amount = 30, chainNum = 0\<rparr>])]"
    by (simp add: fxEnv_def)
  have v1: "isValidBlock fxEnv 0 fxLocal (deserialize fxEnv ''9c00xx'')
      (Some (fxSender ''9c00'')) = (Inr True, fxLocal)"
    by (simp add: b isValidBlock_def isEligibileToMint_def getEligibilityAddress_def
        fxSender_def fxMiner_def fxWallet_def fxBlock_def countMatchingBits_eq
        text2Binary_9c00 leadingMatches_def MINT_ELEGIBILITY_DIFFICULTY_def TIME_UNTIL_ELIGIBILITY_DECREASE_def)
      (simp add: fxEnv_def)
  have v2: "isValidBlock fxEnv 0 fxLocal (deserialize fxEnv ''9c00xx'') (Some fxLocal)
      = (Inr True, fxLocal)"
    by (simp add: b isValidBlock_def isEligibileToMint_def getEligibilityAddress_def
        fxLocal_def fxMiner_def fxWalletAB_def fxWallet_def fxBlock_def countMatchingBits_eq
        text2Binary_9c00 leadingMatches_def MINT_ELEGIBILITY_DIFFICULTY_def TIME_UNTIL_ELIGIBILITY_DECREASE_def)
      (simp add: fxEnv_def)
  have c: "chainLength (deserialize fxEnv ''9c00xx'') = 6" "chainLength fxView = 2"
    "currentBlock fxLocal = fxView" "rewardAddress fxLocal = Some ''reward''"
    by (simp_all add: b fxBlock_def fxLocal_def fxMiner_def fxView_def)
  have n: "prevBlockHash (newBlock fxEnv (rewardAddress fxLocal) (deserialize fxEnv ''9c00xx''))
      = ''9c9c00''"
    by (simp add: fxEnv_def fxBlock_def)
  have s: "\<not> sameMiner fxLocal (Some (fxSender ''9c00''))" "sameMiner fxLocal (Some fxLocal)"
    by (simp_all add: sameMiner_def fxLocal_def fxSender_def fxMiner_def)
  have g: "chainLength (deserialize fxEnv ''9c00xx'') \<ge> chainLength (currentBlock fxLocal)"
    by (simp add: c)
  from receiveBlock_fork_adoption [OF v1, of "fxKey ''R''" "fxKey ''S''"] g s(1)
  have a: "previousBlocks
         (snd (receiveBlock fxEnv (fxKey ''R'') (fxKey ''S'') 0 fxLocal ''9c00xx''
                 (Some (fxSender ''9c00''))))
         (prevBlockHash (newBlock fxEnv (rewardAddress fxLocal) (deserialize fxEnv ''9c00xx'')))
       = Some (deserialize fxEnv ''9c00xx'')"
    "rewardAddress
         (snd (receiveBlock fxEnv (fxKey ''R'') (fxKey ''S'') 0 fxLocal ''9c00xx''
                 (Some (fxSender ''9c00''))))
       = rewardAddress fxLocal"
    by blast+
  from receiveBlock_fork_adoption [OF v2, of "fxKey ''R''" "fxKey ''S''"] s(2)
  have k: "currentBlock
         (snd (receiveBlock fxEnv (fxKey ''R'') (fxKey ''S'') 0 fxLocal ''9c00xx''
                 (Some fxLocal)))
       = currentBlock fxLocal"
    by blast
  from a n have a': "previousBlocks
         (snd (receiveBlock fxEnv (fxKey ''R'') (fxKey ''S'') 0 fxLocal ''9c00xx''
                 (Some (fxSender ''9c00''))))
         ''9c9c00''
       = Some (deserialize fxEnv ''9c00xx'')"
    by simp
  show ?thesis
    using v1 v2 g s a' a(2) k by (simp only: c simp_thms)
qed

text \<open>
  Claim C4, witness. A block of chain length 5 fails the stand-in proof check: it is
  logged as rejected and \<open>false\<close> is returned. A block with previous hash \<open>8f3a\<close> from a
  sender with fingerprint \<open>12345\<close> (two matching bits against the threshold 3) makes
  \<open>receiveBlock\<close> throw.
\<close>

theorem receiveBlock_rejection_witness:
  "\<not> verifyProof fxEnv (deserialize fxEnv ''9c00x'')
   \<and> isEligibileToMint (fxSender ''9c00'') (deserialize fxEnv ''9c00x'')
        (MINT_ELEGIBILITY_DIFFICULTY
           - (0 - timestamp (deserialize fxEnv ''9c00x'') + 100)
               div TIME_UNTIL_ELIGIBILITY_DECREASE) = Inr True
   \<and> receiveBlock fxEnv (fxKey ''R'') (fxKey ''S'') 0 fxLocal ''9c00x''
        (Some (fxSender ''9c00''))
       = (Inr (Some False), log_m fxLocal LogRejecting)
   \<and> isEligibileToMint (fxSender ''12345'') (deserialize fxEnv ''8f3a00'')
        (MINT_ELEGIBILITY_DIFFICULTY
           - (0 - timestamp (deserialize fxEnv ''8f3a00'') + 100)
               div TIME_UNTIL_ELIGIBILITY_DECREASE) = Inr False
   \<and> receiveBlock fxEnv (fxKey ''R'') (fxKey ''S'') 0 fxLocal ''8f3a00''
        (Some (fxSender ''12345''))
       = (Inl IneligibleMinter, log_m fxLocal (LogNotAllowed ''Minnie''))"
proof -
  have b1: "deserialize fxEnv ''9c00x''
      = fxBlock ''9c00'' 5 0
          [(''tx-addr-A'', [\<lparr>address = ''addr-A'', amount = 30, chainNum = 0\<rparr>])]"
    and b2: "deserialize fxEnv ''8f3a00''
      = fxBlock ''8f3a'' 6 0
          [(''tx-addr-A'', [\<lparr>address = ''addr-A'', amount = 30, chainNum = 0\<rparr>])]"
    by (simp_all add: fxEnv_def)
  have p: "\<not> verifyProof fxEnv (deserialize fxEnv ''9c00x'')"
    by (simp add: b1) (simp add: fxEnv_def fxBlock_def)
  have e1: "isEligibileToMint (fxSender ''9c00'') (deserialize fxEnv ''9c00x'')
        (MINT_ELEGIBILITY_DIFFICULTY
           - (0 - timestamp (deserialize fxEnv ''9c00x'') + 100)
               div TIME_UNTIL_ELIGIBILITY_DECREASE) = Inr True"
    by (simp add: b1 isEligibileToMint_def getEligibilityAddress_def fxSender_def
        fxMiner_def fxWallet_def fxBlock_def countMatchingBits_eq
        text2Binary_9c00 leadingMatches_def MINT_ELEGIBILITY_DIFFICULTY_def TIME_UNTIL_ELIGIBILITY_DECREASE_def)
  have e2: "isEligibileToMint (fxSender ''12345'') (deserialize fxEnv ''8f3a00'')
        (MINT_ELEGIBILITY_DIFFICULTY
           - (0 - timestamp (deserialize fxEnv ''8f3a00'') + 100)
               div TIME_UNTIL_ELIGIBILITY_DECREASE) = Inr False"
    by (simp add: b2 isEligibileToMint_def getEligibilityAddress_def fxSender_def
        fxMiner_def fxWallet_def fxBlock_def text2Binary_8f3a text2Binary_12345
        countMatchingBits_eq leadingMatches_def
        MINT_ELEGIBILITY_DIFFICULTY_def TIME_UNTIL_ELIGIBILITY_DECREASE_def)
  have nm: "name (fxSender ''12345'') = ''Minnie''"
    by (simp add: fxSender_def fxMiner_def)
  show ?thesis
    using receiveBlock_rejection [of fxEnv "''9c00x''" "Some (fxSender ''9c00'')"
        "fxSender ''9c00''" 0 "fxKey ''R''" "fxKey ''S''" fxLocal]
      receiveBlock_rejection [of fxEnv "''8f3a00''" "Some (fxSender ''12345'')"
        "fxSender ''12345''" 0 "fxKey ''R''" "fxKey ''S''" fxLocal]
      p e1 e2 nm
    by simp
qed

text \<open>
  Claim C4 as stated fails: for a block with previous hash \<open>8f3a\<close> whose sender has the
  fingerprint \<open>0b1c\<close> (two matching bits, threshold 3, 20 seconds after the block's time
  stamp), \<open>receiveBlock\<close> does not return \<open>false\<close>; it throws, and the rejection message of
  \<open>receiveBlock\<close> is not logged.
\<close>

theorem receiveBlock_throws_counterexample:
  "receiveBlock fxEnv (fxKey ''R'') (fxKey ''S'') 20000 fxLocal ''8f3a00''
      (Some (fxSender ''0b1c''))
     = (Inl IneligibleMinter, log_m fxLocal (LogNotAllowed ''Minnie''))
   \<and> fst (receiveBlock fxEnv (fxKey ''R'') (fxKey ''S'') 20000 fxLocal ''8f3a00''
            (Some (fxSender ''0b1c''))) \<noteq> Inr (Some False)
   \<and> LogRejecting \<notin> set (console (snd
        (receiveBlock fxEnv (fxKey ''R'') (fxKey ''S'') 20000 fxLocal ''8f3a00''
            (Some (fxSender ''0b1c'')))))"
proof -
  have b: "deserialize fxEnv ''8f3a00''
      = fxBlock ''8f3a'' 6 0
          [(''tx-addr-A'', [\<lparr>address = ''addr-A'', amount = 30, chainNum = 0\<rparr>])]"
    by (simp add: fxEnv_def)
  have "receiveBlock fxEnv (fxKey ''R'') (fxKey ''S'') 20000 fxLocal ''8f3a00''
      (Some (fxSender ''0b1c''))
     = (Inl IneligibleMinter, log_m fxLocal (LogNotAllowed ''Minnie''))"
    by (simp add: receiveBlock_def b isValidBlock_def isEligibileToMint_def
        getEligibilityAddress_def fxSender_def fxMiner_def fxWallet_def fxBlock_def
        text2Binary_8f3a text2Binary_0b1c countMatchingBits_eq leadingMatches_def
        MINT_ELEGIBILITY_DIFFICULTY_def TIME_UNTIL_ELIGIBILITY_DECREASE_def)
  then show ?thesis
    by (simp add: log_m_def fxLocal_def fxMiner_def)
qed

end
